theory Spec2Isabelle
  imports Complex_Main
begin

section \<open>Values, files and the world of \<^verbatim>\<open>src/pipelines/main.py\<close>\<close>

text \<open>
  The pipeline file is orchestration code: each command reads local files, calls the
  training modules and two tracking libraries, and writes files back. The model is a
  state-passing embedding. The world holds the local files, the remote CSV sources and
  the tracking store; every command takes the world and returns its outcome together
  with the world it leaves behind, so that the effects of a command that raises are
  still visible.

  Python values that travel through JSON (the argument set, the performance report,
  the sampled parameters of a trial) are \<open>pyval\<close>; a dictionary is a map from its
  string keys, which is what Python's dictionary equality compares.
\<close>

datatype pyval =
    PNone
  | PBool bool
  | PInt int
  | PFloat real
  | PStr string
  | PList "pyval list"
  | PDict "string \<Rightarrow> pyval option"

type_synonym dict = "string \<Rightarrow> pyval option"

text \<open>
  Exceptions as values. Where the statement that raises fixes the class of the Python
  exception, the constructor has the name of the class: \<open>FileNotFoundError\<close> from
  \<open>open\<close> on a path with no file (the not-found error of the code; the
  specification's taxonomy calls it NotFoundError), \<open>TypeError\<close>, \<open>KeyError\<close>,
  \<open>ValueError\<close>, and the tracking store's \<open>MlflowException\<close>.

  Where the class depends on the bytes of the file that is read, the constructor names
  the reader that raised and stands for whatever exception that reader raises on those
  bytes: \<open>NotCsv\<close> for the CSV reader, \<open>NotJson\<close> for the JSON reader (a
  \<open>JSONDecodeError\<close> on text that is not JSON, a \<open>UnicodeDecodeError\<close> on bytes
  that are not text), \<open>NotAPickle\<close> for the unpickler (which raises \<open>ValueError\<close>,
  \<open>KeyError\<close>, \<open>EOFError\<close>, \<open>IndexError\<close> or its own errors, as the first
  bytes decide). \<open>NotServed\<close> is the failure to fetch a URL. \<open>Raised\<close> carries an
  exception that escapes from the training modules.

  The last two names belong to the specification's taxonomy only: no statement of
  main.py constructs them; they are here so that statements about them can be written
  down.
\<close>

datatype error =
    FileNotFoundError
  | NotServed
  | NotCsv
  | NotJson
  | NotAPickle
  | TypeError
  | KeyError
  | ValueError
  | MlflowException
  | Raised string
  | ConfigurationError
  | CorruptArtifactError

text \<open>
  A row of projects.csv is its \<open>id\<close> and the rest of its columns; a row of tags.csv is
  its \<open>id\<close> and its \<open>tag\<close>, \<open>None\<close> for an empty cell; a merged row has all three.
\<close>

type_synonym project_row = "int \<times> string"
type_synonym tag_row = "int \<times> string option"
type_synonym labeled_row = "int \<times> string \<times> string option"

text \<open>
  A file is identified with what its bytes denote: a table, a JSON document, the pickle
  of an object of type \<open>'o\<close> (label encoders apart, the objects of a bundle are opaque
  to main.py), or bytes that no reader of the pipeline accepts.
\<close>

datatype 'o content =
    ProjectsCsv "project_row list"
  | TagsCsv "tag_row list"
  | LabeledCsv "labeled_row list"
  | Json pyval
  | Pickle 'o
  | Garbage

text \<open>The constants of the \<open>config\<close> module, which main.py only reads.\<close>

record config =
  DATA_DIR :: string
  CONFIG_DIR :: string
  PROJECTS_URL :: string
  TAGS_URL :: string

text \<open>
  One run of the tracking store: the names given to \<open>set_experiment\<close> and
  \<open>start_run\<close>, the logged metrics and parameters, and the artifact tree as a map
  from the path below the run's artifact root to the file.
\<close>

record 'o mlflow_run =
  experiment_name :: string
  run_name :: string
  logged_metrics :: "string \<Rightarrow> pyval option"
  logged_params :: dict
  artifacts :: "string \<Rightarrow> 'o content option"

text \<open>
  The world. \<open>fs\<close> holds the local files by path, the run pointer apart: \<open>run_id_txt\<close>
  is the content of \<open>CONFIG_DIR/run_id.txt\<close>, \<open>None\<close> while that file does not
  exist. \<open>web\<close> is what the two source URLs serve. \<open>runs\<close> is the tracking store,
  \<open>fresh_ids\<close> the identifiers it will hand out, in order, and \<open>params_accepted\<close>
  its validation of a dictionary of parameters: the store refuses names with characters
  it does not allow and values that are too long.
\<close>

record 'o world =
  fs :: "string \<Rightarrow> 'o content option"
  run_id_txt :: "string option"
  web :: "string \<Rightarrow> 'o content option"
  runs :: "string \<Rightarrow> 'o mlflow_run option"
  fresh_ids :: "nat \<Rightarrow> string"
  params_accepted :: "dict \<Rightarrow> bool"

definition Path :: "string \<Rightarrow> string \<Rightarrow> string" where
  "Path d f = d @ ''/'' @ f"

section \<open>\<^verbatim>\<open>elt_data\<close>\<close>

definition read_projects_csv :: "'o content option \<Rightarrow> error \<Rightarrow> error + project_row list" where
  "read_projects_csv f missing =
     (case f of None \<Rightarrow> Inl missing
      | Some (ProjectsCsv rs) \<Rightarrow> Inr rs
      | Some _ \<Rightarrow> Inl NotCsv)"

definition read_tags_csv :: "'o content option \<Rightarrow> error \<Rightarrow> error + tag_row list" where
  "read_tags_csv f missing =
     (case f of None \<Rightarrow> Inl missing
      | Some (TagsCsv rs) \<Rightarrow> Inr rs
      | Some _ \<Rightarrow> Inl NotCsv)"

definition read_labeled_csv :: "'o content option \<Rightarrow> error + labeled_row list" where
  "read_labeled_csv f =
     (case f of None \<Rightarrow> Inl FileNotFoundError
      | Some (LabeledCsv rs) \<Rightarrow> Inr rs
      | Some _ \<Rightarrow> Inl NotCsv)"

text \<open>\<^verbatim>\<open>pd.merge(projects, tags, on="id")\<close>: the inner join on the \<open>id\<close> column.\<close>

definition merge_on_id :: "project_row list \<Rightarrow> tag_row list \<Rightarrow> labeled_row list" where
  "merge_on_id projects tags =
     concat (map (\<lambda>p. map (\<lambda>t. (fst p, snd p, snd t))
                          (filter (\<lambda>t. fst t = fst p) tags)) projects)"

text \<open>\<^verbatim>\<open>df[df.tag.notnull()]\<close>\<close>

definition tag_notnull :: "labeled_row list \<Rightarrow> labeled_row list" where
  "tag_notnull df = filter (\<lambda>r. snd (snd r) \<noteq> None) df"

text \<open>
  Python's slices \<^verbatim>\<open>df[-k:]\<close> and \<^verbatim>\<open>df[:-k]\<close> for \<open>k > 0\<close>: a start or stop
  before the first row is clipped to it, which is what the truncating subtraction on
  \<open>nat\<close> computes.
\<close>

definition slice_last :: "nat \<Rightarrow> 'a list \<Rightarrow> 'a list" where
  "slice_last k xs = drop (length xs - k) xs"

definition slice_but_last :: "nat \<Rightarrow> 'a list \<Rightarrow> 'a list" where
  "slice_but_last k xs = take (length xs - k) xs"

text \<open>The rows that \<open>elt_data\<close> calls \<open>df\<close>, \<open>test_df\<close> and \<open>train_df\<close>.\<close>

definition labeled_rows :: "project_row list \<Rightarrow> tag_row list \<Rightarrow> labeled_row list" where
  "labeled_rows projects tags = tag_notnull (merge_on_id projects tags)"

definition test_df :: "labeled_row list \<Rightarrow> labeled_row list" where
  "test_df df = slice_last 300 df"

definition train_df :: "labeled_row list \<Rightarrow> labeled_row list" where
  "train_df df = slice_but_last 300 df"

definition elt_data :: "config \<Rightarrow> 'o world \<Rightarrow> (error + unit) \<times> 'o world" where
  "elt_data cfg w =
     (case read_projects_csv (web w (PROJECTS_URL cfg)) NotServed of
        Inl e \<Rightarrow> (Inl e, w)
      | Inr projects \<Rightarrow>
     (case read_tags_csv (web w (TAGS_URL cfg)) NotServed of
        Inl e \<Rightarrow> (Inl e, w)
      | Inr tags \<Rightarrow>
        let w1 = w\<lparr>fs := (fs w)(Path (DATA_DIR cfg) ''projects.csv'' \<mapsto> ProjectsCsv projects)\<rparr>;
            w2 = w1\<lparr>fs := (fs w1)(Path (DATA_DIR cfg) ''tags.csv'' \<mapsto> TagsCsv tags)\<rparr>;
            df = labeled_rows projects tags;
            w3 = w2\<lparr>fs := (fs w2)(Path (DATA_DIR cfg) ''labeled_projects.csv''
                                  \<mapsto> LabeledCsv (train_df df))\<rparr>;
            w4 = w3\<lparr>fs := (fs w3)(Path (DATA_DIR cfg) ''test_labeled_projects.csv''
                                  \<mapsto> LabeledCsv (test_df df))\<rparr>
        in (Inr (), w4)))"

section \<open>Readers and writers of bundle members\<close>

text \<open>
  Modelled from the spec: \<open>utils.load_dict\<close> and \<open>utils.save_dict\<close> (the \<open>utils\<close>
  module is not among the sources). The specification has them read and write a JSON
  object that comes back as the value that was written; a path with no file raises
  \<open>FileNotFoundError\<close> as \<open>open\<close> does, and a file that is not a JSON document is
  refused by the JSON reader.
\<close>

definition load_dict :: "'o content option \<Rightarrow> error + pyval" where
  "load_dict f =
     (case f of None \<Rightarrow> Inl FileNotFoundError
      | Some (Json v) \<Rightarrow> Inr v
      | Some _ \<Rightarrow> Inl NotJson)"

definition save_dict :: "pyval \<Rightarrow> 'o content" where
  "save_dict d = Json d"

text \<open>
  \<^verbatim>\<open>Namespace(**d)\<close> needs a dictionary; \<^verbatim>\<open>vars\<close> of the namespace is that
  dictionary again, so a namespace is modelled by its dictionary.
\<close>

definition Namespace :: "pyval \<Rightarrow> error + dict" where
  "Namespace v = (case v of PDict d \<Rightarrow> Inr d | _ \<Rightarrow> Inl TypeError)"

definition load_args :: "'o content option \<Rightarrow> error + dict" where
  "load_args f = (case load_dict f of Inl e \<Rightarrow> Inl e | Inr v \<Rightarrow> Namespace v)"

text \<open>\<^verbatim>\<open>joblib.dump\<close> and \<^verbatim>\<open>joblib.load\<close>\<close>

definition joblib_dump :: "'o \<Rightarrow> 'o content" where
  "joblib_dump obj = Pickle obj"

definition joblib_load :: "'o content option \<Rightarrow> error + 'o" where
  "joblib_load f =
     (case f of None \<Rightarrow> Inl FileNotFoundError
      | Some (Pickle obj) \<Rightarrow> Inr obj
      | Some _ \<Rightarrow> Inl NotAPickle)"

text \<open>
  Modelled from the spec: \<open>data.LabelEncoder\<close> with its \<open>save\<close> and \<open>load\<close> (the
  \<open>data\<close> module is not among the sources). The specification gives the encoder a
  vocabulary that survives storage in \<open>label_encoder.json\<close>; the encoder is modelled
  by the list of its class names and the file by the JSON list of these names.
\<close>

datatype label_encoder = LabelEncoder (classes: "string list")

fun class_names :: "pyval list \<Rightarrow> string list option" where
  "class_names [] = Some []"
| "class_names (PStr c # vs) = map_option ((#) c) (class_names vs)"
| "class_names (_ # vs) = None"

definition LabelEncoder_save :: "label_encoder \<Rightarrow> 'o content" where
  "LabelEncoder_save le = Json (PList (map PStr (classes le)))"

definition LabelEncoder_load :: "'o content option \<Rightarrow> error + label_encoder" where
  "LabelEncoder_load f =
     (case f of None \<Rightarrow> Inl FileNotFoundError
      | Some (Json (PList vs)) \<Rightarrow>
          (case class_names vs of None \<Rightarrow> Inl TypeError | Some cs \<Rightarrow> Inr (LabelEncoder cs))
      | Some (Json _) \<Rightarrow> Inl TypeError
      | Some _ \<Rightarrow> Inl NotJson)"

text \<open>
  The dictionary that \<open>train.train\<close> returns and \<open>load_artifacts\<close> rebuilds. The
  vectorizer and the model are objects that main.py only hands on.
\<close>

record 'o artifact_bundle =
  args :: dict
  label_encoder :: label_encoder
  vectorizer :: 'o
  model :: 'o
  performance :: pyval

section \<open>The tracking store\<close>

text \<open>
  \<^verbatim>\<open>mlflow.set_experiment\<close> and \<^verbatim>\<open>mlflow.start_run\<close>: the store hands out its
  next identifier and opens an empty run under it.
\<close>

definition start_run :: "string \<Rightarrow> string \<Rightarrow> 'o world \<Rightarrow> string \<times> 'o world" where
  "start_run exp_name rname w =
     (let run_id = fresh_ids w 0
      in (run_id,
          w\<lparr>runs := (runs w)(run_id \<mapsto>
                \<lparr>experiment_name = exp_name, run_name = rname,
                 logged_metrics = Map.empty, logged_params = Map.empty,
                 artifacts = Map.empty\<rparr>),
            fresh_ids := (\<lambda>n. fresh_ids w (Suc n))\<rparr>))"

definition upd_run :: "string \<Rightarrow> ('o mlflow_run \<Rightarrow> 'o mlflow_run) \<Rightarrow> 'o world \<Rightarrow> 'o world" where
  "upd_run run_id f w =
     (case runs w run_id of None \<Rightarrow> w
      | Some r \<Rightarrow> w\<lparr>runs := (runs w)(run_id \<mapsto> f r)\<rparr>)"

text \<open>Subscripting, \<^verbatim>\<open>d[k]\<close>, with a string key.\<close>

definition getitem :: "pyval \<Rightarrow> string \<Rightarrow> error + pyval" where
  "getitem v k =
     (case v of
        PDict d \<Rightarrow> (case d k of None \<Rightarrow> Inl KeyError | Some x \<Rightarrow> Inr x)
      | _ \<Rightarrow> Inl TypeError)"

text \<open>
  \<^verbatim>\<open>mlflow.log_metrics({k: v})\<close>: the store accepts numbers only, and a boolean is
  not a number to it.
\<close>

definition is_number :: "pyval \<Rightarrow> bool" where
  "is_number v = (case v of PInt _ \<Rightarrow> True | PFloat _ \<Rightarrow> True | _ \<Rightarrow> False)"

definition log_metrics :: "string \<Rightarrow> string \<Rightarrow> pyval \<Rightarrow> 'o world \<Rightarrow> (error + unit) \<times> 'o world" where
  "log_metrics run_id k v w =
     (if is_number v
      then (Inr (), upd_run run_id (\<lambda>r. r\<lparr>logged_metrics := (logged_metrics r)(k \<mapsto> v)\<rparr>) w)
      else (Inl MlflowException, w))"

text \<open>
  \<^verbatim>\<open>mlflow.log_metrics({k: performance["overall"][k]})\<close>: the argument is evaluated
  first.
\<close>

definition log_overall :: "string \<Rightarrow> pyval \<Rightarrow> string \<Rightarrow> 'o world \<Rightarrow> (error + unit) \<times> 'o world" where
  "log_overall run_id perf k w =
     (case getitem perf ''overall'' of
        Inl e \<Rightarrow> (Inl e, w)
      | Inr overall \<Rightarrow>
          (case getitem overall k of
             Inl e \<Rightarrow> (Inl e, w)
           | Inr v \<Rightarrow> log_metrics run_id k v w))"

text \<open>\<^verbatim>\<open>mlflow.log_params(d)\<close>: the store validates the dictionary before it records it.\<close>

definition log_params :: "string \<Rightarrow> dict \<Rightarrow> 'o world \<Rightarrow> (error + unit) \<times> 'o world" where
  "log_params run_id d w =
     (if params_accepted w d
      then (Inr (), upd_run run_id (\<lambda>r. r\<lparr>logged_params := logged_params r ++ d\<rparr>) w)
      else (Inl MlflowException, w))"

text \<open>
  \<^verbatim>\<open>mlflow.log_artifacts(dp, artifact_path=sub)\<close> copies every file of the local
  directory \<open>dp\<close>, given by its names and files, below \<open>sub\<close> in the run's tree.
\<close>

fun put_files :: "string \<Rightarrow> (string \<times> 'o content) list \<Rightarrow> (string \<Rightarrow> 'o content option)
    \<Rightarrow> (string \<Rightarrow> 'o content option)" where
  "put_files sub [] tree = tree"
| "put_files sub ((name, f) # rest) tree = put_files sub rest (tree(Path sub name \<mapsto> f))"

definition log_artifacts :: "string \<Rightarrow> (string \<times> 'o content) list \<Rightarrow> string \<Rightarrow> 'o world \<Rightarrow> 'o world" where
  "log_artifacts run_id dp sub w =
     upd_run run_id (\<lambda>r. r\<lparr>artifacts := put_files sub dp (artifacts r)\<rparr>) w"

text \<open>
  \<^verbatim>\<open>mlflow.sklearn.log_model(model, sub)\<close> stores the pickled model as
  \<open>model.pkl\<close> below \<open>sub\<close>. (The descriptive files it stores beside the pickle are
  never read by main.py and are left out.)
\<close>

definition log_model :: "string \<Rightarrow> 'o \<Rightarrow> string \<Rightarrow> 'o world \<Rightarrow> 'o world" where
  "log_model run_id m sub w =
     upd_run run_id (\<lambda>r. r\<lparr>artifacts := (artifacts r)(Path sub ''model.pkl'' \<mapsto> Pickle m)\<rparr>) w"

text \<open>
  \<^verbatim>\<open>client.download_artifacts(run_id, "", dp)\<close>: the whole tree of the run, or the
  store's exception when it has no such run.
\<close>

definition download_artifacts :: "string \<Rightarrow> 'o world \<Rightarrow> error + (string \<Rightarrow> 'o content option)" where
  "download_artifacts run_id w =
     (case runs w run_id of None \<Rightarrow> Inl MlflowException | Some r \<Rightarrow> Inr (artifacts r))"

section \<open>\<^verbatim>\<open>train_model\<close>\<close>

text \<open>
  The files written into the temporary directory (lines 97 to 106), in the order of
  the source.
\<close>

definition staged_files :: "'o artifact_bundle \<Rightarrow> (string \<times> 'o content) list" where
  "staged_files a =
     [(''args.json'', save_dict (PDict (args a))),
      (''label_encoder.json'', LabelEncoder_save (label_encoder a)),
      (''vectorizer.pkl'', joblib_dump (vectorizer a)),
      (''performance.json'', save_dict (performance a))]"

text \<open>
  The body of the \<^verbatim>\<open>with mlflow.start_run\<close> block (lines 83 to 108): training, the
  three metrics, the parameters, the artifacts and the model. \<open>train\<close> stands for
  \<open>train.train\<close>, which is not among the sources. The block yields the performance
  report, which the lines after it use.
\<close>

definition log_run :: "(labeled_row list \<Rightarrow> dict \<Rightarrow> error + 'o artifact_bundle) \<Rightarrow> labeled_row list \<Rightarrow> dict
    \<Rightarrow> string \<Rightarrow> 'o world \<Rightarrow> (error + pyval) \<times> 'o world" where
  "log_run train df a run_id w =
     (case train df a of
        Inl e \<Rightarrow> (Inl e, w)
      | Inr arts \<Rightarrow>
     (case log_overall run_id (performance arts) ''precision'' w of
        (Inl e, w1) \<Rightarrow> (Inl e, w1)
      | (Inr _, w1) \<Rightarrow>
     (case log_overall run_id (performance arts) ''recall'' w1 of
        (Inl e, w2) \<Rightarrow> (Inl e, w2)
      | (Inr _, w2) \<Rightarrow>
     (case log_overall run_id (performance arts) ''f1'' w2 of
        (Inl e, w3) \<Rightarrow> (Inl e, w3)
      | (Inr _, w3) \<Rightarrow>
     (case log_params run_id (args arts) w3 of
        (Inl e, w4) \<Rightarrow> (Inl e, w4)
      | (Inr _, w4) \<Rightarrow>
        let w5 = log_artifacts run_id (staged_files arts) ''artifacts'' w4;
            w6 = log_model run_id (model arts) ''model'' w5
        in (Inr (performance arts), w6))))))"

definition train_model :: "(labeled_row list \<Rightarrow> dict \<Rightarrow> error + 'o artifact_bundle) \<Rightarrow> config
    \<Rightarrow> string \<Rightarrow> string \<Rightarrow> string \<Rightarrow> bool \<Rightarrow> 'o world \<Rightarrow> (error + unit) \<times> 'o world" where
  "train_model train cfg args_fp exp_name rname test_run w =
     (case read_labeled_csv (fs w (Path (DATA_DIR cfg) ''labeled_projects.csv'')) of
        Inl e \<Rightarrow> (Inl e, w)
      | Inr df \<Rightarrow>
     (case load_args (fs w args_fp) of
        Inl e \<Rightarrow> (Inl e, w)
      | Inr a \<Rightarrow>
     (case start_run exp_name rname w of (run_id, w1) \<Rightarrow>
     (case log_run train df a run_id w1 of
        (Inl e, w2) \<Rightarrow> (Inl e, w2)
      | (Inr perf, w2) \<Rightarrow>
        if \<not> test_run
        then (Inr (), w2\<lparr>run_id_txt := Some run_id,
                         fs := (fs w2)(Path (CONFIG_DIR cfg) ''performance.json'' \<mapsto> save_dict perf)\<rparr>)
        else (Inr (), w2)))))"

section \<open>\<^verbatim>\<open>load_artifacts\<close> and \<^verbatim>\<open>predict_tag\<close>\<close>

text \<open>\<^verbatim>\<open>not run_id\<close>: true of \<open>None\<close> and of the empty string.\<close>

definition py_not :: "string option \<Rightarrow> bool" where
  "py_not run_id = (case run_id of None \<Rightarrow> True | Some s \<Rightarrow> s = [])"

text \<open>\<^verbatim>\<open>open(Path(config.CONFIG_DIR, "run_id.txt")).read()\<close>\<close>

definition read_run_id_txt :: "'o world \<Rightarrow> error + string" where
  "read_run_id_txt w = (case run_id_txt w of None \<Rightarrow> Inl FileNotFoundError | Some s \<Rightarrow> Inr s)"

text \<open>Lines 170 and 171, and again 205 and 206: the identifier the function goes on with.\<close>

definition resolve_run_id :: "string option \<Rightarrow> 'o world \<Rightarrow> error + string" where
  "resolve_run_id run_id w =
     (case run_id of
        None \<Rightarrow> read_run_id_txt w
      | Some s \<Rightarrow> if py_not (Some s) then read_run_id_txt w else Inr s)"

text \<open>Lines 173 to 194: the five members are read in the order of the source.\<close>

definition load_members :: "(string \<Rightarrow> 'o content option) \<Rightarrow> error + 'o artifact_bundle" where
  "load_members dp =
     (case load_args (dp (Path ''artifacts'' ''args.json'')) of
        Inl e \<Rightarrow> Inl e
      | Inr a \<Rightarrow>
     (case joblib_load (dp (Path ''artifacts'' ''vectorizer.pkl'')) of
        Inl e \<Rightarrow> Inl e
      | Inr vec \<Rightarrow>
     (case LabelEncoder_load (dp (Path ''artifacts'' ''label_encoder.json'')) of
        Inl e \<Rightarrow> Inl e
      | Inr le \<Rightarrow>
     (case load_dict (dp (Path ''artifacts'' ''performance.json'')) of
        Inl e \<Rightarrow> Inl e
      | Inr perf \<Rightarrow>
     (case joblib_load (dp (Path ''model'' ''model.pkl'')) of
        Inl e \<Rightarrow> Inl e
      | Inr m \<Rightarrow>
        Inr \<lparr>args = a, label_encoder = le, vectorizer = vec, model = m,
             performance = perf\<rparr>)))))"

definition load_artifacts :: "string option \<Rightarrow> 'o world \<Rightarrow> error + 'o artifact_bundle" where
  "load_artifacts run_id w =
     (case resolve_run_id run_id w of
        Inl e \<Rightarrow> Inl e
      | Inr rid \<Rightarrow>
     (case download_artifacts rid w of
        Inl e \<Rightarrow> Inl e
      | Inr dp \<Rightarrow> load_members dp))"

text \<open>
  \<open>predict\<close> stands for \<open>predict.predict\<close>, which is not among the sources. The
  identifier that \<open>predict_tag\<close> resolves is handed to \<open>load_artifacts\<close>, which tests
  it again.
\<close>

definition predict_tag :: "(string list \<Rightarrow> 'o artifact_bundle \<Rightarrow> error + 'p) \<Rightarrow> string \<Rightarrow> string option
    \<Rightarrow> 'o world \<Rightarrow> error + 'p" where
  "predict_tag predict text run_id w =
     (case resolve_run_id run_id w of
        Inl e \<Rightarrow> Inl e
      | Inr rid \<Rightarrow>
     (case load_artifacts (Some rid) w of
        Inl e \<Rightarrow> Inl e
      | Inr arts \<Rightarrow> predict [text] arts))"

section \<open>The study of \<^verbatim>\<open>optimize\<close>\<close>

text \<open>The states of a trial in the optimization library.\<close>

datatype trial_state = RUNNING | WAITING | COMPLETE | PRUNED | FAIL

text \<open>
  A finished trial as the study keeps it. The specification has the evaluator report
  one intermediate value at each step, so the values a trial has reported are a list,
  the value of step \<open>k\<close> at position \<open>k\<close>, step 0 first.
\<close>

record frozen_trial =
  number :: nat
  state :: trial_state
  trial_value :: "real option"
  params :: dict
  user_attrs :: dict
  intermediate_values :: "real list"

text \<open>
  \<^verbatim>\<open>optuna.pruners.MedianPruner(n_startup_trials=5, n_warmup_steps=5)\<close>, the other
  two settings at their defaults.
\<close>

record median_pruner =
  n_startup_trials :: nat
  n_warmup_steps :: nat
  interval_steps :: nat
  n_min_trials :: nat

definition MedianPruner :: "nat \<Rightarrow> nat \<Rightarrow> median_pruner" where
  "MedianPruner startup warmup =
     \<lparr>n_startup_trials = startup, n_warmup_steps = warmup, interval_steps = 1, n_min_trials = 1\<rparr>"

text \<open>The 50th percentile with linear interpolation, as \<open>numpy\<close> computes it.\<close>

definition median :: "real list \<Rightarrow> real" where
  "median xs =
     (let s = sort xs; n = length s
      in if n mod 2 = 1 then s ! (n div 2) else (s ! (n div 2 - 1) + s ! (n div 2)) / 2)"

text \<open>
  The values that the completed trials of the study reported at step \<open>step\<close>; a trial
  that never reached the step contributes nothing.
\<close>

definition values_at_step :: "frozen_trial list \<Rightarrow> nat \<Rightarrow> real list" where
  "values_at_step trials step =
     map (\<lambda>t. intermediate_values t ! step)
       (filter (\<lambda>t. state t = COMPLETE \<and> step < length (intermediate_values t)) trials)"

text \<open>
  The greatest value in a non-empty list: the best intermediate result of a trial in a
  study that maximizes.
\<close>

definition best_intermediate :: "real list \<Rightarrow> real" where
  "best_intermediate vs = fold max (tl vs) (hd vs)"

text \<open>
  The decision of the pruner for a running trial, from the trials of the study so far
  and the values \<open>reported\<close> by the running trial, the last one at the current step.
  This is the \<open>prune\<close> method of the library's percentile pruner at percentile 50 in a
  study with direction \<open>maximize\<close>: no pruning while fewer than \<open>n_startup_trials\<close>
  trials are complete, none while the step is below \<open>n_warmup_steps\<close>, none when
  fewer than \<open>n_min_trials\<close> complete trials reported at this step; otherwise the
  trial is pruned when its best reported value so far is less than the median of the
  complete trials' values at this step. With \<open>interval_steps = 1\<close> every step from the
  warm-up on is a pruning step.
\<close>

definition prune :: "median_pruner \<Rightarrow> frozen_trial list \<Rightarrow> real list \<Rightarrow> bool" where
  "prune p trials reported =
     (let n = length (filter (\<lambda>t. state t = COMPLETE) trials)
      in if n = 0 then False
         else if n < n_startup_trials p then False
         else if reported = [] then False
         else let step = length reported - 1
              in if step < n_warmup_steps p then False
                 else if length (values_at_step trials step) < n_min_trials p then False
                 else best_intermediate reported < median (values_at_step trials step))"

text \<open>
  Modelled from the spec: \<open>train.objective\<close> and the reporting loop of \<open>train.train\<close>
  (the \<open>train\<close> module is not among the sources). One call of the objective is given
  by what it would do: the parameters it samples for the trial, the intermediate values
  that training reports step by step when it is never stopped, how the call ends when
  training runs to its end (the value returned, or an exception), the user attributes
  recorded on natural completion, and what the call leaves in the argument namespace it
  was handed, as a function of the values reported before the call ended.
\<close>

record objective_call =
  suggested :: dict
  reports :: "real list"
  returned :: "error + real"
  attributes :: dict
  namespace :: "real list \<Rightarrow> dict"

text \<open>
  Modelled from the spec: the evaluator reports an intermediate value at each step and
  the pruning policy is consulted after each report; when the policy says so the trial
  is marked PRUNED and evaluated no further. \<open>should_prune\<close> is
  \<^verbatim>\<open>trial.should_prune()\<close> as a function of the values reported so far. The
  result is the values reported and whether the trial was pruned.
\<close>

fun report_steps :: "(real list \<Rightarrow> bool) \<Rightarrow> real list \<Rightarrow> real list \<Rightarrow> real list \<times> bool" where
  "report_steps should_prune reported [] = (reported, False)"
| "report_steps should_prune reported (v # vs) =
     (if should_prune (reported @ [v]) then (reported @ [v], True)
      else report_steps should_prune (reported @ [v]) vs)"

text \<open>
  One trial of \<^verbatim>\<open>study.optimize\<close>, from the trials of the study so far and the
  contents of the one namespace that line 145 hands to every call of the objective; it
  yields the finished trial and the contents the call has left in the namespace. The
  pruner of the study answers \<^verbatim>\<open>trial.should_prune()\<close>. A returned value completes
  the trial; a pruned trial keeps its last reported value and records no user
  attribute; any other exception leaves \<open>study.optimize\<close>, since main.py passes no
  \<open>catch\<close>.
\<close>

definition run_trial :: "median_pruner \<Rightarrow> (dict \<Rightarrow> labeled_row list \<Rightarrow> frozen_trial list \<Rightarrow> objective_call)
    \<Rightarrow> labeled_row list \<Rightarrow> frozen_trial list \<times> dict \<Rightarrow> error + frozen_trial \<times> dict" where
  "run_trial pruner objective df st =
     (case st of (trials, a) \<Rightarrow>
        let c = objective a df trials
        in (case report_steps (prune pruner trials) [] (reports c) of
              (reported, True) \<Rightarrow>
                Inr (\<lparr>number = length trials, state = PRUNED, trial_value = Some (last reported),
                      params = suggested c, user_attrs = Map.empty,
                      intermediate_values = reported\<rparr>,
                     namespace c reported)
            | (reported, False) \<Rightarrow>
                (case returned c of
                   Inl e \<Rightarrow> Inl e
                 | Inr v \<Rightarrow>
                     Inr (\<lparr>number = length trials, state = COMPLETE, trial_value = Some v,
                           params = suggested c, user_attrs = attributes c,
                           intermediate_values = reported\<rparr>,
                          namespace c reported))))"

text \<open>
  \<^verbatim>\<open>study.optimize(..., n_trials=n)\<close>: trials run one after the other until \<open>n\<close> of
  them have been started, each on the namespace as the one before left it.
\<close>

fun study_optimize :: "(frozen_trial list \<times> dict \<Rightarrow> error + frozen_trial \<times> dict) \<Rightarrow> nat
    \<Rightarrow> frozen_trial list \<times> dict \<Rightarrow> error + frozen_trial list \<times> dict" where
  "study_optimize run 0 st = Inr st"
| "study_optimize run (Suc n) st =
     (case run st of
        Inl e \<Rightarrow> Inl e
      | Inr (t, a) \<Rightarrow> study_optimize run n (fst st @ [t], a))"

text \<open>
  \<^verbatim>\<open>study.best_trial\<close> of a study that maximizes and keeps its trials in memory. The
  storage updates its best trial each time a trial finishes: the first complete trial
  becomes the best one, and a later complete trial replaces it only with a strictly
  greater value.
\<close>

definition update_best :: "frozen_trial option \<Rightarrow> frozen_trial \<Rightarrow> frozen_trial option" where
  "update_best best t =
     (if state t \<noteq> COMPLETE then best
      else case best of
             None \<Rightarrow> Some t
           | Some b \<Rightarrow>
               (case trial_value b of
                  None \<Rightarrow> Some t
                | Some bv \<Rightarrow>
                    (case trial_value t of
                       None \<Rightarrow> Some b
                     | Some tv \<Rightarrow> if bv < tv then Some t else Some b)))"

definition best_trial :: "frozen_trial list \<Rightarrow> error + frozen_trial" where
  "best_trial trials =
     (case foldl update_best None trials of None \<Rightarrow> Inl ValueError | Some b \<Rightarrow> Inr b)"

text \<open>
  \<^verbatim>\<open>study.trials_dataframe().sort_values(["user_attrs_f1"], ascending=False)\<close>: the
  frame has the column only when some trial carries the user attribute \<open>f1\<close>, and
  sorting by a column that is not there raises \<open>KeyError\<close>. The sorted frame is
  assigned to \<open>trials_df\<close> and never read again, so the model keeps only whether the
  statement raises.
\<close>

definition sort_by_user_attrs_f1 :: "frozen_trial list \<Rightarrow> error + unit" where
  "sort_by_user_attrs_f1 trials =
     (if list_ex (\<lambda>t. user_attrs t ''f1'' \<noteq> None) trials then Inr () else Inl KeyError)"

section \<open>\<^verbatim>\<open>optimize\<close>\<close>

text \<open>
  Lines 132 to 148: the data and the arguments are loaded and the study is run with the
  median pruner of line 137. \<open>num_trials\<close> is a Python integer; a loop bounded by a
  number that is not positive runs no trial. The result is the trials of the study and
  the contents of the namespace \<open>args\<close> after the last call of the objective. The
  records that the tracking callback writes for each trial are left out.
\<close>

definition optimize_study :: "(dict \<Rightarrow> labeled_row list \<Rightarrow> frozen_trial list \<Rightarrow> objective_call) \<Rightarrow> config
    \<Rightarrow> string \<Rightarrow> int \<Rightarrow> 'o world \<Rightarrow> error + frozen_trial list \<times> dict" where
  "optimize_study objective cfg args_fp num_trials w =
     (case read_labeled_csv (fs w (Path (DATA_DIR cfg) ''labeled_projects.csv'')) of
        Inl e \<Rightarrow> Inl e
      | Inr df \<Rightarrow>
     (case load_args (fs w args_fp) of
        Inl e \<Rightarrow> Inl e
      | Inr a \<Rightarrow>
        study_optimize (run_trial (MedianPruner 5 5) objective df) (nat num_trials) ([], a)))"

text \<open>
  Lines 150 to 154: the sort, then the parameters of the best trial merged over
  \<^verbatim>\<open>args.__dict__\<close>, which is the namespace as the objective calls left it, and the
  result written to the argument file.
\<close>

definition optimize :: "(dict \<Rightarrow> labeled_row list \<Rightarrow> frozen_trial list \<Rightarrow> objective_call) \<Rightarrow> config
    \<Rightarrow> string \<Rightarrow> string \<Rightarrow> int \<Rightarrow> 'o world \<Rightarrow> (error + unit) \<times> 'o world" where
  "optimize objective cfg args_fp study_name num_trials w =
     (case optimize_study objective cfg args_fp num_trials w of
        Inl e \<Rightarrow> (Inl e, w)
      | Inr (trials, a) \<Rightarrow>
     (case sort_by_user_attrs_f1 trials of
        Inl e \<Rightarrow> (Inl e, w)
      | Inr _ \<Rightarrow>
     (case best_trial trials of
        Inl e \<Rightarrow> (Inl e, w)
      | Inr best \<Rightarrow>
        (Inr (), w\<lparr>fs := (fs w)(args_fp \<mapsto> save_dict (PDict (a ++ params best)))\<rparr>))))"

text \<open>
  The artifact tree of a run that \<open>train_model\<close> has persisted for the bundle \<open>arts\<close>:
  the four staged files below \<open>artifacts\<close> and the pickled model below \<open>model\<close>.
\<close>

definition run_tree :: "'o artifact_bundle \<Rightarrow> (string \<Rightarrow> 'o content option)" where
  "run_tree arts = (put_files ''artifacts'' (staged_files arts) Map.empty)
                               (Path ''model'' ''model.pkl'' \<mapsto> Pickle (model arts))"





text \<open>
  The store in which one file of a run's artifact tree has been replaced, or taken
  away (\<open>None\<close>); every other file and every other run is as before.
\<close>

definition set_artifact :: "string \<Rightarrow> string \<Rightarrow> 'o content option \<Rightarrow> 'o world \<Rightarrow> 'o world" where
  "set_artifact run_id path f w = upd_run run_id (\<lambda>r. r\<lparr>artifacts := (artifacts r)(path := f)\<rparr>) w"

section \<open>Predicates of the statements about the study\<close>

text \<open>
  Two facts that hold of every list of trials a study builds: a complete trial has a
  value, and the number of a trial is its position in the list.
\<close>

definition complete_valued :: "frozen_trial list \<Rightarrow> bool" where
  "complete_valued trials = list_all (\<lambda>t. state t = COMPLETE \<longrightarrow> trial_value t \<noteq> None) trials"

definition numbered :: "frozen_trial list \<Rightarrow> bool" where
  "numbered trials = (map number trials = [0..<length trials])"

text \<open>
  Trial \<open>i\<close> of the list is complete with value \<open>v\<close>, no complete trial has a greater
  value, and every complete trial before it has a smaller one: the greatest value, ties
  to the lowest index.
\<close>

definition top_ranked :: "frozen_trial list \<Rightarrow> nat \<Rightarrow> real \<Rightarrow> bool" where
  "top_ranked trials i v =
     (i < length trials \<and> state (trials ! i) = COMPLETE \<and> trial_value (trials ! i) = Some v
      \<and> (\<forall>j < length trials. state (trials ! j) = COMPLETE \<longrightarrow>
            (\<exists>u. trial_value (trials ! j) = Some u \<and> u \<le> v \<and> (j < i \<longrightarrow> u < v))))"

text \<open>
  The ranking of the specification, by the user attribute \<open>f1\<close>: \<open>b\<close> carries an
  \<open>f1\<close> that is at least the \<open>f1\<close> of every complete trial of the list.
\<close>

definition f1_le :: "frozen_trial \<Rightarrow> frozen_trial \<Rightarrow> bool" where
  "f1_le t b =
     (case user_attrs t ''f1'' of
        Some (PFloat x) \<Rightarrow> (case user_attrs b ''f1'' of Some (PFloat y) \<Rightarrow> x \<le> y | _ \<Rightarrow> False)
      | _ \<Rightarrow> False)"

definition best_by_f1 :: "frozen_trial list \<Rightarrow> frozen_trial \<Rightarrow> bool" where
  "best_by_f1 trials b = list_all (\<lambda>t. state t = COMPLETE \<longrightarrow> f1_le t b) trials"

text \<open>
  The objective recorded, as the user attribute \<open>f1\<close> of each complete trial, the
  very number it returned.
\<close>

definition f1_is_value :: "frozen_trial list \<Rightarrow> bool" where
  "f1_is_value trials =
     list_all (\<lambda>t. state t = COMPLETE \<longrightarrow> user_attrs t ''f1'' = map_option PFloat (trial_value t)) trials"

text \<open>
  The pruning rule in the words of the specification: the value reported at the
  current step is worse than the median of the complete trials' values at that step.
\<close>

definition worse_than_median :: "frozen_trial list \<Rightarrow> real list \<Rightarrow> bool" where
  "worse_than_median trials reported =
     (last reported < median (values_at_step trials (length reported - 1)))"

section \<open>Concrete inputs\<close>

definition cfg0 :: config where
  "cfg0 = \<lparr>DATA_DIR = ''data'', CONFIG_DIR = ''config'',
           PROJECTS_URL = ''projects_url'', TAGS_URL = ''tags_url''\<rparr>"

definition args1 :: dict where
  "args1 = [''lr'' \<mapsto> PFloat 0.01]"

text \<open>
  Three projects and 303 tag rows: project 2 has one tag, project 1 has one row with no
  tag and 300 rows with one, project 4 has no tag row, and one tag row is of a project
  3 that is not among the projects.
\<close>

definition projects0 :: "project_row list" where
  "projects0 = [(2, ''b''), (1, ''a''), (4, ''d'')]"

definition tags0 :: "tag_row list" where
  "tags0 = [(1, None), (3, Some ''x''), (2, Some ''cv'')] @ replicate 300 (1, Some ''nlp'')"

definition world0 :: "nat world" where
  "world0 = \<lparr>fs = Map.empty, run_id_txt = None,
     web = [''projects_url'' \<mapsto> ProjectsCsv projects0, ''tags_url'' \<mapsto> TagsCsv tags0],
     runs = Map.empty, fresh_ids = (\<lambda>n. ''run'' @ replicate n CHR ''x''),
     params_accepted = (\<lambda>d. d = args1)\<rparr>"

definition perf1 :: pyval where
  "perf1 = PDict [''overall'' \<mapsto> PDict [''precision'' \<mapsto> PFloat 0.8, ''recall'' \<mapsto> PFloat 0.7,
                                        ''f1'' \<mapsto> PFloat 0.75]]"

definition bundle1 :: "nat artifact_bundle" where
  "bundle1 = \<lparr>args = args1, label_encoder = LabelEncoder [''nlp'', ''cv''], vectorizer = 1,
              model = 2, performance = perf1\<rparr>"

definition train1 :: "labeled_row list \<Rightarrow> dict \<Rightarrow> error + nat artifact_bundle" where
  "train1 df a = Inr (bundle1\<lparr>args := a\<rparr>)"

definition world1 :: "nat world" where
  "world1 = \<lparr>fs = [''data/labeled_projects.csv'' \<mapsto> LabeledCsv [(7, ''a title'', Some ''nlp'')],
                   ''config/args.json'' \<mapsto> Json (PDict args1)],
     run_id_txt = None, web = Map.empty, runs = Map.empty,
     fresh_ids = (\<lambda>n. ''run'' @ replicate n CHR ''x''),
     params_accepted = (\<lambda>d. d = args1)\<rparr>"

text \<open>
  A store with a sound run \<open>r0\<close>, which the pointer names; a run \<open>r1\<close> whose
  vectorizer file is missing; a run \<open>r2\<close> whose vectorizer file is not a pickle; and a
  run filed under the empty identifier, with no artifacts.
\<close>

definition world3 :: "nat world" where
  "world3 = \<lparr>fs = Map.empty, run_id_txt = Some ''r0'', web = Map.empty,
     runs = [''r0'' \<mapsto> \<lparr>experiment_name = ''baselines'', run_name = ''sgd'',
                logged_metrics = Map.empty, logged_params = Map.empty,
                artifacts = run_tree bundle1\<rparr>,
             ''r1'' \<mapsto> \<lparr>experiment_name = ''baselines'', run_name = ''sgd'',
                logged_metrics = Map.empty, logged_params = Map.empty,
                artifacts = (run_tree bundle1)(Path ''artifacts'' ''vectorizer.pkl'' := None)\<rparr>,
             ''r2'' \<mapsto> \<lparr>experiment_name = ''baselines'', run_name = ''sgd'',
                logged_metrics = Map.empty, logged_params = Map.empty,
                artifacts = (run_tree bundle1)(Path ''artifacts'' ''vectorizer.pkl'' \<mapsto> Garbage)\<rparr>,
             [] \<mapsto> \<lparr>experiment_name = ''baselines'', run_name = ''sgd'',
                logged_metrics = Map.empty, logged_params = Map.empty,
                artifacts = Map.empty\<rparr>],
     fresh_ids = (\<lambda>n. ''run'' @ replicate n CHR ''x''),
     params_accepted = (\<lambda>d. d = args1)\<rparr>"

definition predict1 :: "string list \<Rightarrow> nat artifact_bundle \<Rightarrow> error + (string \<times> string) list" where
  "predict1 texts arts = Inr (map (\<lambda>t. (t, hd (classes (label_encoder arts)))) texts)"

text \<open>
  An objective whose returned value and recorded \<open>f1\<close> attribute differ and which
  writes to the namespace it is handed: its first call sets \<open>learning_rate\<close> and a key
  \<open>threshold\<close> that it does not suggest, every later call sets \<open>learning_rate\<close>
  again. The two trials it produces, and the namespace after both calls.
\<close>

definition objective2 :: "dict \<Rightarrow> labeled_row list \<Rightarrow> frozen_trial list \<Rightarrow> objective_call" where
  "objective2 a df trials =
     (if trials = []
      then \<lparr>suggested = [''learning_rate'' \<mapsto> PFloat 0.1], reports = [], returned = Inr 0.9,
            attributes = [''f1'' \<mapsto> PFloat 0.1],
            namespace = (\<lambda>rs. a(''learning_rate'' \<mapsto> PFloat 0.1, ''threshold'' \<mapsto> PFloat 0.5))\<rparr>
      else \<lparr>suggested = [''learning_rate'' \<mapsto> PFloat 0.2], reports = [], returned = Inr 0.5,
            attributes = [''f1'' \<mapsto> PFloat 0.8],
            namespace = (\<lambda>rs. a(''learning_rate'' \<mapsto> PFloat 0.2))\<rparr>)"

definition trial2_0 :: frozen_trial where
  "trial2_0 = \<lparr>number = 0, state = COMPLETE, trial_value = Some 0.9,
       params = [''learning_rate'' \<mapsto> PFloat 0.1], user_attrs = [''f1'' \<mapsto> PFloat 0.1],
       intermediate_values = []\<rparr>"

definition trial2_1 :: frozen_trial where
  "trial2_1 = \<lparr>number = 1, state = COMPLETE, trial_value = Some 0.5,
       params = [''learning_rate'' \<mapsto> PFloat 0.2], user_attrs = [''f1'' \<mapsto> PFloat 0.8],
       intermediate_values = []\<rparr>"

definition namespace2 :: dict where
  "namespace2 = args1(''learning_rate'' \<mapsto> PFloat 0.1, ''threshold'' \<mapsto> PFloat 0.5,
                      ''learning_rate'' \<mapsto> PFloat 0.2)"

text \<open>Five complete trials that reported 0.5 at each of six steps.\<close>

definition steady_trial :: "nat \<Rightarrow> frozen_trial" where
  "steady_trial k = \<lparr>number = k, state = COMPLETE, trial_value = Some 0.5, params = Map.empty,
       user_attrs = [''f1'' \<mapsto> PFloat 0.5],
       intermediate_values = [0.5, 0.5, 0.5, 0.5, 0.5, 0.5]\<rparr>"

definition five_trials :: "frozen_trial list" where
  "five_trials = [steady_trial 0, steady_trial 1, steady_trial 2, steady_trial 3, steady_trial 4]"

text \<open>
  An objective that reports 0.5 at six steps and returns 0.5 while fewer than five
  trials are in the study, and from then on reports the values of \<open>curve\<close> and
  returns 0.1; it leaves the namespace as it is. The sixth trial of its study for a
  curve that stays at 0.1, and for a curve that starts at 0.9 and falls to 0.1.
\<close>

definition sixth_objective :: "real list \<Rightarrow> dict \<Rightarrow> labeled_row list \<Rightarrow> frozen_trial list \<Rightarrow> objective_call" where
  "sixth_objective curve a df trials =
     (if length trials < 5
      then \<lparr>suggested = Map.empty, reports = [0.5, 0.5, 0.5, 0.5, 0.5, 0.5], returned = Inr 0.5,
            attributes = [''f1'' \<mapsto> PFloat 0.5], namespace = (\<lambda>rs. a)\<rparr>
      else \<lparr>suggested = Map.empty, reports = curve, returned = Inr 0.1,
            attributes = [''f1'' \<mapsto> PFloat 0.1], namespace = (\<lambda>rs. a)\<rparr>)"

definition low_trial :: frozen_trial where
  "low_trial = \<lparr>number = 5, state = PRUNED, trial_value = Some 0.1, params = Map.empty,
       user_attrs = Map.empty, intermediate_values = [0.1, 0.1, 0.1, 0.1, 0.1, 0.1]\<rparr>"

definition dip_trial :: frozen_trial where
  "dip_trial = \<lparr>number = 5, state = COMPLETE, trial_value = Some 0.1, params = Map.empty,
       user_attrs = [''f1'' \<mapsto> PFloat 0.1],
       intermediate_values = [0.9, 0.1, 0.1, 0.1, 0.1, 0.1]\<rparr>"

section \<open>Properties of \<^verbatim>\<open>elt_data\<close>\<close>

lemma Path_inject: "Path d f = Path d g \<longleftrightarrow> f = g"
  by (simp add: Path_def)

lemma labeled0:
  "labeled_rows projects0 tags0 = (2, ''b'', Some ''cv'') # replicate 300 (1, ''a'', Some ''nlp'')"
  by (simp add: labeled_rows_def merge_on_id_def tag_notnull_def projects0_def tags0_def)

lemma labeled_rows_join:
  "labeled_rows projects tags
     = concat (map (\<lambda>p. map (\<lambda>t. (fst p, snd p, snd t))
                             (filter (\<lambda>t. fst t = fst p \<and> snd t \<noteq> None) tags)) projects)"
proof -
  have "filter (\<lambda>r. snd (snd r) \<noteq> None) (map (\<lambda>t. (i, x, snd t)) (filter (\<lambda>t. fst t = i) tags))
      = map (\<lambda>t. (i, x, snd t)) (filter (\<lambda>t. fst t = i \<and> snd t \<noteq> None) tags)"
    for i :: int and x :: string
    by (induction tags) auto
  then show ?thesis
    by (simp add: labeled_rows_def merge_on_id_def tag_notnull_def filter_concat comp_def)
qed

lemma labeled_rows_set:
  "set (labeled_rows projects tags)
     = {(i, x, tg). (i, x) \<in> set projects \<and> (i, tg) \<in> set tags \<and> tg \<noteq> None}"
  unfolding labeled_rows_join by force

text \<open>
  C10. The labeled rows of \<open>elt_data\<close> are the rows of the join of the projects and
  the tags on \<open>id\<close> whose tag is not null: one row for every project row and every tag
  row of the same \<open>id\<close> with a tag, in the order of the projects and, for one project,
  of its tag rows; a row is among them exactly when its \<open>id\<close> and text are a project
  row, its \<open>id\<close> and tag are a tag row, and its tag is not null. When the two sources
  are served and there are at least 300 labeled rows, \<open>elt_data\<close> succeeds and writes
  the training file and the test file so that the training rows followed by the test
  rows are the labeled rows in their order, and the test file has 300 rows: the test
  file is the last 300 labeled rows, the training file every earlier one, and each
  labeled row is in one file only. (The comment above the slice says 100; the slice
  bounds are 300.)
\<close>

theorem elt_data_split:
  assumes "web w (PROJECTS_URL cfg) = Some (ProjectsCsv projects)"
    and "web w (TAGS_URL cfg) = Some (TagsCsv tags)"
    and "300 \<le> length (labeled_rows projects tags)"
  shows "fst (elt_data cfg w) = Inr ()
      \<and> fs (snd (elt_data cfg w)) (Path (DATA_DIR cfg) ''labeled_projects.csv'')
          = Some (LabeledCsv (train_df (labeled_rows projects tags)))
      \<and> fs (snd (elt_data cfg w)) (Path (DATA_DIR cfg) ''test_labeled_projects.csv'')
          = Some (LabeledCsv (test_df (labeled_rows projects tags)))
      \<and> train_df (labeled_rows projects tags) @ test_df (labeled_rows projects tags)
          = labeled_rows projects tags
      \<and> length (test_df (labeled_rows projects tags)) = 300
      \<and> length (train_df (labeled_rows projects tags)) = length (labeled_rows projects tags) - 300
      \<and> labeled_rows projects tags
          = concat (map (\<lambda>p. map (\<lambda>t. (fst p, snd p, snd t))
                                  (filter (\<lambda>t. fst t = fst p \<and> snd t \<noteq> None) tags)) projects)
      \<and> (\<forall>i x tg. (i, x, tg) \<in> set (labeled_rows projects tags)
            \<longleftrightarrow> (i, x) \<in> set projects \<and> (i, tg) \<in> set tags \<and> tg \<noteq> None)"
proof -
  have "fst (elt_data cfg w) = Inr ()
      \<and> fs (snd (elt_data cfg w)) (Path (DATA_DIR cfg) ''labeled_projects.csv'')
          = Some (LabeledCsv (train_df (labeled_rows projects tags)))
      \<and> fs (snd (elt_data cfg w)) (Path (DATA_DIR cfg) ''test_labeled_projects.csv'')
          = Some (LabeledCsv (test_df (labeled_rows projects tags)))
      \<and> train_df (labeled_rows projects tags) @ test_df (labeled_rows projects tags)
          = labeled_rows projects tags
      \<and> length (test_df (labeled_rows projects tags)) = 300
      \<and> length (train_df (labeled_rows projects tags)) = length (labeled_rows projects tags) - 300"
    using assms
    by (simp add: elt_data_def read_projects_csv_def read_tags_csv_def Let_def Path_inject
        test_df_def train_df_def slice_last_def slice_but_last_def)
  moreover have "\<forall>i x tg. (i, x, tg) \<in> set (labeled_rows projects tags)
            \<longleftrightarrow> (i, x) \<in> set projects \<and> (i, tg) \<in> set tags \<and> tg \<noteq> None"
    by (simp add: labeled_rows_set)
  ultimately show ?thesis using labeled_rows_join [of projects tags] by simp
qed

theorem elt_data_split_witness:
  "web world0 (PROJECTS_URL cfg0) = Some (ProjectsCsv projects0)
   \<and> web world0 (TAGS_URL cfg0) = Some (TagsCsv tags0)
   \<and> 300 \<le> length (labeled_rows projects0 tags0)
   \<and> fst (elt_data cfg0 world0) = Inr ()
   \<and> fs (snd (elt_data cfg0 world0)) ''data/labeled_projects.csv''
       = Some (LabeledCsv [(2, ''b'', Some ''cv'')])
   \<and> fs (snd (elt_data cfg0 world0)) ''data/test_labeled_projects.csv''
       = Some (LabeledCsv (replicate 300 (1, ''a'', Some ''nlp'')))
   \<and> (1, ''a'', None) \<notin> set (labeled_rows projects0 tags0)
   \<and> (4, ''d'', Some ''x'') \<notin> set (labeled_rows projects0 tags0)
   \<and> (2, ''b'', Some ''cv'') \<in> set (labeled_rows projects0 tags0)"
proof -
  have p: "web world0 (PROJECTS_URL cfg0) = Some (ProjectsCsv projects0)"
    by (simp add: world0_def cfg0_def)
  have t: "web world0 (TAGS_URL cfg0) = Some (TagsCsv tags0)"
    by (simp add: world0_def cfg0_def)
  have n: "300 \<le> length (labeled_rows projects0 tags0)"
    by (simp add: labeled0)
  have tr: "train_df (labeled_rows projects0 tags0) = [(2, ''b'', Some ''cv'')]"
    by (simp add: labeled0 train_df_def slice_but_last_def)
  have te: "test_df (labeled_rows projects0 tags0) = replicate 300 (1, ''a'', Some ''nlp'')"
    by (simp add: labeled0 test_df_def slice_last_def)
  have d: "Path (DATA_DIR cfg0) ''labeled_projects.csv'' = ''data/labeled_projects.csv''"
    "Path (DATA_DIR cfg0) ''test_labeled_projects.csv'' = ''data/test_labeled_projects.csv''"
    by (simp_all add: Path_def cfg0_def)
  from elt_data_split [OF p t n] have
    "fst (elt_data cfg0 world0) = Inr ()
     \<and> fs (snd (elt_data cfg0 world0)) (Path (DATA_DIR cfg0) ''labeled_projects.csv'')
          = Some (LabeledCsv (train_df (labeled_rows projects0 tags0)))
     \<and> fs (snd (elt_data cfg0 world0)) (Path (DATA_DIR cfg0) ''test_labeled_projects.csv'')
          = Some (LabeledCsv (test_df (labeled_rows projects0 tags0)))
     \<and> (\<forall>i x tg. (i, x, tg) \<in> set (labeled_rows projects0 tags0)
            \<longleftrightarrow> (i, x) \<in> set projects0 \<and> (i, tg) \<in> set tags0 \<and> tg \<noteq> None)"
    by (elim conjE) (intro conjI; assumption)
  then have f: "fst (elt_data cfg0 world0) = Inr ()"
      "fs (snd (elt_data cfg0 world0)) ''data/labeled_projects.csv''
         = Some (LabeledCsv [(2, ''b'', Some ''cv'')])"
      "fs (snd (elt_data cfg0 world0)) ''data/test_labeled_projects.csv''
         = Some (LabeledCsv (replicate 300 (1, ''a'', Some ''nlp'')))"
    and m: "\<And>i x tg. (i, x, tg) \<in> set (labeled_rows projects0 tags0)
            \<longleftrightarrow> (i, x) \<in> set projects0 \<and> (i, tg) \<in> set tags0 \<and> tg \<noteq> None"
    unfolding tr te d by simp_all
  have m1: "(1, ''a'', None) \<notin> set (labeled_rows projects0 tags0)"
    unfolding m by simp
  have m2: "(4, ''d'', Some ''x'') \<notin> set (labeled_rows projects0 tags0)"
    unfolding m by (simp add: tags0_def)
  have m3: "(2, ''b'', Some ''cv'') \<in> set (labeled_rows projects0 tags0)"
    unfolding m by (simp add: tags0_def projects0_def)
  from p t n f m1 m2 m3 show ?thesis by simp
qed

section \<open>Persisting a run and loading it back\<close>

lemma class_names_PStr: "class_names (map PStr cs) = Some cs"
  by (induction cs) simp_all

lemma LabelEncoder_roundtrip: "LabelEncoder_load (Some (LabelEncoder_save le)) = Inr le"
  by (simp add: LabelEncoder_load_def LabelEncoder_save_def class_names_PStr)

lemma upd_run_frame: "fs (upd_run rid f w) = fs w" "run_id_txt (upd_run rid f w) = run_id_txt w"
  "params_accepted (upd_run rid f w) = params_accepted w"
  by (simp_all add: upd_run_def split: option.split)

lemma log_metrics_frame:
  "fs (snd (log_metrics rid k v w)) = fs w" "run_id_txt (snd (log_metrics rid k v w)) = run_id_txt w"
  "params_accepted (snd (log_metrics rid k v w)) = params_accepted w"
  by (simp_all add: log_metrics_def upd_run_frame)

lemma log_overall_frame:
  "fs (snd (log_overall rid p k w)) = fs w" "run_id_txt (snd (log_overall rid p k w)) = run_id_txt w"
  "params_accepted (snd (log_overall rid p k w)) = params_accepted w"
  by (simp_all add: log_overall_def log_metrics_frame split: sum.split)

lemma log_params_frame:
  "fs (snd (log_params rid d w)) = fs w" "run_id_txt (snd (log_params rid d w)) = run_id_txt w"
  by (simp_all add: log_params_def upd_run_frame)

lemma log_run_frame:
  "fs (snd (log_run train df a rid w)) = fs w \<and> run_id_txt (snd (log_run train df a rid w)) = run_id_txt w"
proof (cases "train df a")
  case (Inl e)
  then show ?thesis by (simp add: log_run_def)
next
  case (Inr arts)
  obtain o1 w1 where s1: "log_overall rid (performance arts) ''precision'' w = (o1, w1)"
    by (cases "log_overall rid (performance arts) ''precision'' w")
  obtain o2 w2 where s2: "log_overall rid (performance arts) ''recall'' w1 = (o2, w2)"
    by (cases "log_overall rid (performance arts) ''recall'' w1")
  obtain o3 w3 where s3: "log_overall rid (performance arts) ''f1'' w2 = (o3, w3)"
    by (cases "log_overall rid (performance arts) ''f1'' w2")
  have f1: "fs w1 = fs w" "run_id_txt w1 = run_id_txt w"
    using log_overall_frame(1,2) [of rid "performance arts" "''precision''" w] s1 by simp_all
  have f2: "fs w2 = fs w1" "run_id_txt w2 = run_id_txt w1"
    using log_overall_frame(1,2) [of rid "performance arts" "''recall''" w1] s2 by simp_all
  have f3: "fs w3 = fs w2" "run_id_txt w3 = run_id_txt w2"
    using log_overall_frame(1,2) [of rid "performance arts" "''f1''" w2] s3 by simp_all
  obtain o4 w4 where s4: "log_params rid (args arts) w3 = (o4, w4)"
    by (cases "log_params rid (args arts) w3")
  have f4: "fs w4 = fs w3" "run_id_txt w4 = run_id_txt w3"
    using log_params_frame [of rid "args arts" w3] s4 by simp_all
  show ?thesis
    using Inr s1 s2 s3 s4 f1 f2 f3 f4
    by (simp add: log_run_def Let_def log_artifacts_def log_model_def upd_run_frame
        split: sum.split)
qed

lemma upd_run_tree:
  "map_option g (runs (upd_run rid f w) rid) = map_option (\<lambda>r. g (f r)) (runs w rid)"
  by (simp add: upd_run_def split: option.split)

lemma log_overall_tree:
  "map_option artifacts (runs (snd (log_overall rid p k w)) rid) = map_option artifacts (runs w rid)"
  by (simp add: log_overall_def log_metrics_def upd_run_tree option.map_ident split: sum.split)

lemma log_params_tree:
  "map_option artifacts (runs (snd (log_params rid d w)) rid) = map_option artifacts (runs w rid)"
  by (simp add: log_params_def upd_run_tree option.map_ident)

lemma log_run_tree:
  assumes "fst (log_run train df a rid w) = Inr perf"
  shows "\<exists>arts. train df a = Inr arts \<and> perf = performance arts
     \<and> map_option artifacts (runs (snd (log_run train df a rid w)) rid)
         = map_option (\<lambda>t. (put_files ''artifacts'' (staged_files arts) t)
                               (Path ''model'' ''model.pkl'' \<mapsto> Pickle (model arts)))
             (map_option artifacts (runs w rid))"
proof (cases "train df a")
  case (Inl e)
  with assms show ?thesis by (simp add: log_run_def)
next
  case (Inr arts)
  obtain o1 w1 where s1: "log_overall rid (performance arts) ''precision'' w = (o1, w1)"
    by (cases "log_overall rid (performance arts) ''precision'' w")
  obtain o2 w2 where s2: "log_overall rid (performance arts) ''recall'' w1 = (o2, w2)"
    by (cases "log_overall rid (performance arts) ''recall'' w1")
  obtain o3 w3 where s3: "log_overall rid (performance arts) ''f1'' w2 = (o3, w3)"
    by (cases "log_overall rid (performance arts) ''f1'' w2")
  have t1: "map_option artifacts (runs w1 rid) = map_option artifacts (runs w rid)"
    using log_overall_tree [of rid "performance arts" "''precision''" w] s1 by simp
  have t2: "map_option artifacts (runs w2 rid) = map_option artifacts (runs w1 rid)"
    using log_overall_tree [of rid "performance arts" "''recall''" w1] s2 by simp
  have t3: "map_option artifacts (runs w3 rid) = map_option artifacts (runs w2 rid)"
    using log_overall_tree [of rid "performance arts" "''f1''" w2] s3 by simp
  obtain o4 w4 where s4: "log_params rid (args arts) w3 = (o4, w4)"
    by (cases "log_params rid (args arts) w3")
  have t4: "map_option artifacts (runs w4 rid) = map_option artifacts (runs w3 rid)"
    using log_params_tree [of rid "args arts" w3] s4 by simp
  from assms Inr s1 s2 s3 s4 have ok: "o1 = Inr ()" "o2 = Inr ()" "o3 = Inr ()" "o4 = Inr ()"
    by (auto simp: log_run_def Let_def split: sum.splits)
  have w': "snd (log_run train df a rid w)
      = log_model rid (model arts) ''model'' (log_artifacts rid (staged_files arts) ''artifacts'' w4)"
    using Inr s1 s2 s3 s4 ok by (simp add: log_run_def Let_def)
  have p: "perf = performance arts"
    using assms Inr s1 s2 s3 s4 ok by (simp add: log_run_def Let_def)
  have "map_option artifacts (runs (snd (log_run train df a rid w)) rid)
      = map_option (\<lambda>t. (put_files ''artifacts'' (staged_files arts) t)
                               (Path ''model'' ''model.pkl'' \<mapsto> Pickle (model arts)))
             (map_option artifacts (runs w4 rid))"
    unfolding w' log_model_def log_artifacts_def
    by (simp add: upd_run_tree option.map_comp comp_def)
  with Inr p t1 t2 t3 t4 show ?thesis by simp
qed

lemma start_run_tree:
  "map_option artifacts (runs (snd (start_run e rn w)) (fst (start_run e rn w))) = Some Map.empty"
  "fst (start_run e rn w) = fresh_ids w 0"
  "fs (snd (start_run e rn w)) = fs w"
  "run_id_txt (snd (start_run e rn w)) = run_id_txt w"
  "params_accepted (snd (start_run e rn w)) = params_accepted w"
  by (simp_all add: start_run_def Let_def)

lemma train_model_ok:
  assumes "fst (train_model train cfg args_fp e rn t w) = Inr ()"
  shows "\<exists>df a arts. read_labeled_csv (fs w (Path (DATA_DIR cfg) ''labeled_projects.csv'')) = Inr df
     \<and> load_args (fs w args_fp) = Inr a \<and> train df a = Inr arts
     \<and> map_option artifacts (runs (snd (train_model train cfg args_fp e rn t w)) (fresh_ids w 0))
         = Some (run_tree arts)
     \<and> fst (log_run train df a (fresh_ids w 0) (snd (start_run e rn w))) = Inr (performance arts)
     \<and> snd (train_model train cfg args_fp e rn t w)
         = (let w2 = snd (log_run train df a (fresh_ids w 0) (snd (start_run e rn w)))
            in if \<not> t then w2\<lparr>run_id_txt := Some (fresh_ids w 0),
                         fs := (fs w2)(Path (CONFIG_DIR cfg) ''performance.json'' \<mapsto> save_dict (performance arts))\<rparr>
               else w2)"
proof -
  from assms obtain df where df: "read_labeled_csv (fs w (Path (DATA_DIR cfg) ''labeled_projects.csv'')) = Inr df"
    by (cases "read_labeled_csv (fs w (Path (DATA_DIR cfg) ''labeled_projects.csv''))")
       (simp_all add: train_model_def)
  from assms df obtain a where a: "load_args (fs w args_fp) = Inr a"
    by (cases "load_args (fs w args_fp)") (simp_all add: train_model_def)
  obtain rid w1 where sr: "start_run e rn w = (rid, w1)" by (cases "start_run e rn w")
  have rid: "rid = fresh_ids w 0" using start_run_tree(2) [of e rn w] sr by simp
  obtain out w2 where lr: "log_run train df a rid w1 = (out, w2)" by (cases "log_run train df a rid w1")
  from assms df a sr lr obtain perf where out: "out = Inr perf"
    by (cases out) (simp_all add: train_model_def)
  from log_run_tree [of train df a rid w1 perf] lr out
  obtain arts where arts: "train df a = Inr arts" "perf = performance arts"
    "map_option artifacts (runs w2 rid)
       = map_option (\<lambda>t. (put_files ''artifacts'' (staged_files arts) t)
                               (Path ''model'' ''model.pkl'' \<mapsto> Pickle (model arts)))
             (map_option artifacts (runs w1 rid))"
    by auto
  have "map_option artifacts (runs w1 rid) = Some Map.empty"
    using start_run_tree(1) [of e rn w] sr by simp
  with arts(3) have tree: "map_option artifacts (runs w2 rid) = Some (run_tree arts)"
    by (simp add: run_tree_def)
  have res: "snd (train_model train cfg args_fp e rn t w)
      = (if \<not> t then w2\<lparr>run_id_txt := Some rid,
                         fs := (fs w2)(Path (CONFIG_DIR cfg) ''performance.json'' \<mapsto> save_dict perf)\<rparr>
         else w2)"
    using df a sr lr out by (simp add: train_model_def)
  have "map_option artifacts (runs (snd (train_model train cfg args_fp e rn t w)) rid)
      = Some (run_tree arts)"
    using tree by (simp add: res)
  with df a arts rid sr lr out res show ?thesis by (simp add: Let_def)
qed

lemma tree_lookups:
  "run_tree arts (Path ''artifacts'' ''args.json'') = Some (save_dict (PDict (args arts)))"
  "run_tree arts (Path ''artifacts'' ''label_encoder.json'') = Some (LabelEncoder_save (label_encoder arts))"
  "run_tree arts (Path ''artifacts'' ''vectorizer.pkl'') = Some (joblib_dump (vectorizer arts))"
  "run_tree arts (Path ''artifacts'' ''performance.json'') = Some (save_dict (performance arts))"
  "run_tree arts (Path ''model'' ''model.pkl'') = Some (Pickle (model arts))"
  by (simp_all add: run_tree_def staged_files_def Path_def)

lemma load_members_tree: "load_members (run_tree (arts :: 'o artifact_bundle)) = Inr arts"
  by (simp add: load_members_def tree_lookups load_args_def load_dict_def save_dict_def Namespace_def
      joblib_load_def joblib_dump_def LabelEncoder_roundtrip)

text \<open>
  C2. Whenever \<open>train_model\<close> returns, with the store handing out a non-empty
  identifier, \<open>load_artifacts\<close> for that identifier returns the very bundle that
  training produced: the same arguments and performance report, and the label encoder,
  vectorizer and model read back from their files, so all five members are present and
  each one deserializes. The readers and writers of the JSON members are the ones
  modelled from the specification.
\<close>

theorem train_then_load:
  assumes "fst (train_model train cfg args_fp e rn t w) = Inr ()"
    and "fresh_ids w 0 \<noteq> []"
  shows "\<exists>df a arts. read_labeled_csv (fs w (Path (DATA_DIR cfg) ''labeled_projects.csv'')) = Inr df
     \<and> load_args (fs w args_fp) = Inr a \<and> train df a = Inr arts
     \<and> load_artifacts (Some (fresh_ids w 0)) (snd (train_model train cfg args_fp e rn t w)) = Inr arts"
proof -
  from train_model_ok [OF assms(1)] obtain df a arts where
    h: "read_labeled_csv (fs w (Path (DATA_DIR cfg) ''labeled_projects.csv'')) = Inr df"
       "load_args (fs w args_fp) = Inr a" "train df a = Inr arts"
       "map_option artifacts (runs (snd (train_model train cfg args_fp e rn t w)) (fresh_ids w 0))
         = Some (run_tree arts)"
    by blast
  from h(4) obtain r where r: "runs (snd (train_model train cfg args_fp e rn t w)) (fresh_ids w 0) = Some r"
     "artifacts r = run_tree arts"
    by auto
  have "load_artifacts (Some (fresh_ids w 0)) (snd (train_model train cfg args_fp e rn t w)) = Inr arts"
    using assms(2) r
    by (simp add: load_artifacts_def resolve_run_id_def py_not_def download_artifacts_def
        load_members_tree)
  with h show ?thesis by blast
qed

lemma getitem_perf1:
  "getitem perf1 ''overall'' = Inr (PDict [''precision'' \<mapsto> PFloat 0.8, ''recall'' \<mapsto> PFloat 0.7,
                                        ''f1'' \<mapsto> PFloat 0.75])"
  by (simp add: getitem_def perf1_def)

lemma log_overall_perf1:
  "k \<in> {''precision'', ''recall'', ''f1''} \<Longrightarrow> fst (log_overall rid perf1 k w) = Inr ()"
  unfolding log_overall_def getitem_perf1
  by (auto simp: getitem_def log_metrics_def is_number_def)

lemma log_run_train1:
  assumes "params_accepted w a"
  shows "fst (log_run train1 df a rid w) = Inr perf1"
proof -
  obtain o1 w1 where s1: "log_overall rid perf1 ''precision'' w = (o1, w1)"
    by (cases "log_overall rid perf1 ''precision'' w")
  obtain o2 w2 where s2: "log_overall rid perf1 ''recall'' w1 = (o2, w2)"
    by (cases "log_overall rid perf1 ''recall'' w1")
  obtain o3 w3 where s3: "log_overall rid perf1 ''f1'' w2 = (o3, w3)"
    by (cases "log_overall rid perf1 ''f1'' w2")
  have "params_accepted w1 = params_accepted w"
    using log_overall_frame(3) [of rid perf1 "''precision''" w] s1 by simp
  moreover have "params_accepted w2 = params_accepted w1"
    using log_overall_frame(3) [of rid perf1 "''recall''" w1] s2 by simp
  moreover have "params_accepted w3 = params_accepted w2"
    using log_overall_frame(3) [of rid perf1 "''f1''" w2] s3 by simp
  ultimately have acc: "params_accepted w3 a" using assms by simp
  have "o1 = Inr ()" using log_overall_perf1 [of "''precision''" rid w] s1 by simp
  moreover have "o2 = Inr ()" using log_overall_perf1 [of "''recall''" rid w1] s2 by simp
  moreover have "o3 = Inr ()" using log_overall_perf1 [of "''f1''" rid w2] s3 by simp
  ultimately show ?thesis
    using s1 s2 s3 acc by (simp add: log_run_def train1_def bundle1_def Let_def log_params_def)
qed

lemma train_model_world1:
  "fst (train_model train1 cfg0 ''config/args.json'' ''baselines'' ''sgd'' t world1) = Inr ()"
proof -
  have df: "read_labeled_csv (fs world1 (Path (DATA_DIR cfg0) ''labeled_projects.csv''))
      = Inr [(7, ''a title'', Some ''nlp'')]"
    by (simp add: read_labeled_csv_def world1_def cfg0_def Path_def)
  have a: "load_args (fs world1 ''config/args.json'') = Inr args1"
    by (simp add: load_args_def load_dict_def Namespace_def world1_def)
  obtain rid w1 where sr: "start_run ''baselines'' ''sgd'' world1 = (rid, w1)"
    by (cases "start_run ''baselines'' ''sgd'' world1")
  obtain out w2 where lr: "log_run train1 [(7, ''a title'', Some ''nlp'')] args1 rid w1 = (out, w2)"
    by (cases "log_run train1 [(7, ''a title'', Some ''nlp'')] args1 rid w1")
  have "params_accepted w1 args1"
    using start_run_tree(5) [of "''baselines''" "''sgd''" world1] sr by (simp add: world1_def)
  then have "out = Inr perf1"
    using log_run_train1 [of w1 args1 "[(7, ''a title'', Some ''nlp'')]" rid] lr by simp
  with df a sr lr show ?thesis by (simp add: train_model_def)
qed

text \<open>
  The scenario of the specification: one argument, an overall precision of 0.8, recall
  of 0.7 and \<open>f1\<close> of 0.75.
\<close>

theorem train_then_load_witness:
  "fst (train_model train1 cfg0 ''config/args.json'' ''baselines'' ''sgd'' False world1) = Inr ()
   \<and> fresh_ids world1 0 \<noteq> []
   \<and> load_artifacts (Some ''run'')
        (snd (train_model train1 cfg0 ''config/args.json'' ''baselines'' ''sgd'' False world1))
       = Inr bundle1"
proof -
  have id: "fresh_ids world1 0 = ''run''" by (simp add: world1_def)
  have ne: "fresh_ids world1 0 \<noteq> []" by (simp add: world1_def)
  have a: "load_args (fs world1 ''config/args.json'') = Inr args1"
    by (simp add: load_args_def load_dict_def Namespace_def world1_def)
  from train_then_load [OF train_model_world1 ne, of False] a
  have "load_artifacts (Some (fresh_ids world1 0))
        (snd (train_model train1 cfg0 ''config/args.json'' ''baselines'' ''sgd'' False world1))
       = Inr (bundle1\<lparr>args := args1\<rparr>)"
    by (auto simp: train1_def)
  then show ?thesis using train_model_world1 ne id by (simp add: bundle1_def)
qed

lemma Path_sub_neq: "Path ''model'' f \<noteq> Path ''artifacts'' g"
  by (simp add: Path_def)

lemma train_model_frame:
  assumes "test_run \<or> fst (train_model train cfg args_fp e rn test_run w) \<noteq> Inr ()"
  shows "fs (snd (train_model train cfg args_fp e rn test_run w)) = fs w
       \<and> run_id_txt (snd (train_model train cfg args_fp e rn test_run w)) = run_id_txt w"
proof (cases "read_labeled_csv (fs w (Path (DATA_DIR cfg) ''labeled_projects.csv''))")
  case (Inl x)
  then show ?thesis by (simp add: train_model_def)
next
  case df: (Inr df)
  show ?thesis
  proof (cases "load_args (fs w args_fp)")
    case (Inl x)
    with df show ?thesis by (simp add: train_model_def)
  next
    case a: (Inr a)
    obtain rid w1 where sr: "start_run e rn w = (rid, w1)" by (cases "start_run e rn w")
    obtain out w2 where lr: "log_run train df a rid w1 = (out, w2)"
      by (cases "log_run train df a rid w1")
    have f1: "fs w1 = fs w" "run_id_txt w1 = run_id_txt w"
      using start_run_tree(3,4) [of e rn w] sr by simp_all
    have f2: "fs w2 = fs w1" "run_id_txt w2 = run_id_txt w1"
      using log_run_frame [of train df a rid w1] lr by simp_all
    show ?thesis
      using assms df a sr lr f1 f2 by (cases out) (auto simp: train_model_def)
  qed
qed

text \<open>
  C7. With \<open>test_run\<close> set, \<open>train_model\<close> leaves every local file and the run
  pointer as they were, whether it returns or raises. With \<open>test_run\<close> unset and a
  normal return, the pointer holds the identifier of the new run, the snapshot
  \<open>CONFIG_DIR/performance.json\<close> holds the performance report of the training, and no
  other local file has changed. A call that raises writes neither. The block that
  creates and fills the run (\<open>start_run\<close> followed by \<open>log_run\<close>) never touches the
  pointer or a local file.
\<close>

theorem train_model_pointer:
  "(test_run \<longrightarrow>
      fs (snd (train_model train cfg args_fp e rn test_run w)) = fs w
      \<and> run_id_txt (snd (train_model train cfg args_fp e rn test_run w)) = run_id_txt w)
   \<and> (\<not> test_run \<and> fst (train_model train cfg args_fp e rn test_run w) = Inr () \<longrightarrow>
        run_id_txt (snd (train_model train cfg args_fp e rn test_run w)) = Some (fresh_ids w 0)
        \<and> (\<exists>df a arts.
              read_labeled_csv (fs w (Path (DATA_DIR cfg) ''labeled_projects.csv'')) = Inr df
              \<and> load_args (fs w args_fp) = Inr a \<and> train df a = Inr arts
              \<and> fs (snd (train_model train cfg args_fp e rn test_run w))
                  = (fs w)(Path (CONFIG_DIR cfg) ''performance.json'' \<mapsto> save_dict (performance arts))))
   \<and> (fst (train_model train cfg args_fp e rn test_run w) \<noteq> Inr () \<longrightarrow>
        fs (snd (train_model train cfg args_fp e rn test_run w)) = fs w
        \<and> run_id_txt (snd (train_model train cfg args_fp e rn test_run w)) = run_id_txt w)
   \<and> fs (snd (log_run train df0 a0 (fst (start_run e rn w)) (snd (start_run e rn w)))) = fs w
   \<and> run_id_txt (snd (log_run train df0 a0 (fst (start_run e rn w)) (snd (start_run e rn w))))
       = run_id_txt w"
proof -
  have A: "test_run \<longrightarrow>
      fs (snd (train_model train cfg args_fp e rn test_run w)) = fs w
      \<and> run_id_txt (snd (train_model train cfg args_fp e rn test_run w)) = run_id_txt w"
    using train_model_frame [of test_run train cfg args_fp e rn w] by blast
  have C: "fst (train_model train cfg args_fp e rn test_run w) \<noteq> Inr () \<longrightarrow>
        fs (snd (train_model train cfg args_fp e rn test_run w)) = fs w
        \<and> run_id_txt (snd (train_model train cfg args_fp e rn test_run w)) = run_id_txt w"
    using train_model_frame [of test_run train cfg args_fp e rn w] by blast
  have B: "\<not> test_run \<and> fst (train_model train cfg args_fp e rn test_run w) = Inr () \<longrightarrow>
        run_id_txt (snd (train_model train cfg args_fp e rn test_run w)) = Some (fresh_ids w 0)
        \<and> (\<exists>df a arts.
              read_labeled_csv (fs w (Path (DATA_DIR cfg) ''labeled_projects.csv'')) = Inr df
              \<and> load_args (fs w args_fp) = Inr a \<and> train df a = Inr arts
              \<and> fs (snd (train_model train cfg args_fp e rn test_run w))
                  = (fs w)(Path (CONFIG_DIR cfg) ''performance.json'' \<mapsto> save_dict (performance arts)))"
  proof
    assume h: "\<not> test_run \<and> fst (train_model train cfg args_fp e rn test_run w) = Inr ()"
    from train_model_ok [of train cfg args_fp e rn test_run w] h
    obtain df a arts where
      k: "read_labeled_csv (fs w (Path (DATA_DIR cfg) ''labeled_projects.csv'')) = Inr df"
         "load_args (fs w args_fp) = Inr a" "train df a = Inr arts"
         "snd (train_model train cfg args_fp e rn test_run w)
         = (let w2 = snd (log_run train df a (fresh_ids w 0) (snd (start_run e rn w)))
            in if \<not> test_run then w2\<lparr>run_id_txt := Some (fresh_ids w 0),
                         fs := (fs w2)(Path (CONFIG_DIR cfg) ''performance.json'' \<mapsto> save_dict (performance arts))\<rparr>
               else w2)"
      by blast
    have fr: "fs (snd (log_run train df a (fresh_ids w 0) (snd (start_run e rn w)))) = fs w"
      using log_run_frame [of train df a "fresh_ids w 0" "snd (start_run e rn w)"]
        start_run_tree(3) [of e rn w] by simp
    have "run_id_txt (snd (train_model train cfg args_fp e rn test_run w)) = Some (fresh_ids w 0)"
      using h k(4) by (simp add: Let_def)
    moreover have "fs (snd (train_model train cfg args_fp e rn test_run w))
                  = (fs w)(Path (CONFIG_DIR cfg) ''performance.json'' \<mapsto> save_dict (performance arts))"
      using h k(4) fr by (simp add: Let_def)
    ultimately show "run_id_txt (snd (train_model train cfg args_fp e rn test_run w)) = Some (fresh_ids w 0)
        \<and> (\<exists>df a arts.
              read_labeled_csv (fs w (Path (DATA_DIR cfg) ''labeled_projects.csv'')) = Inr df
              \<and> load_args (fs w args_fp) = Inr a \<and> train df a = Inr arts
              \<and> fs (snd (train_model train cfg args_fp e rn test_run w))
                  = (fs w)(Path (CONFIG_DIR cfg) ''performance.json'' \<mapsto> save_dict (performance arts)))"
      using k(1-3) by blast
  qed
  have D: "fs (snd (log_run train df0 a0 (fst (start_run e rn w)) (snd (start_run e rn w)))) = fs w
   \<and> run_id_txt (snd (log_run train df0 a0 (fst (start_run e rn w)) (snd (start_run e rn w))))
       = run_id_txt w"
    using log_run_frame [of train df0 a0 "fst (start_run e rn w)" "snd (start_run e rn w)"]
      start_run_tree(3,4) [of e rn w] by simp
  from A B C D show ?thesis by blast
qed

theorem train_model_pointer_witness:
  "fs (snd (train_model train1 cfg0 ''config/args.json'' ''baselines'' ''sgd'' True world1)) = fs world1
   \<and> run_id_txt (snd (train_model train1 cfg0 ''config/args.json'' ''baselines'' ''sgd'' True world1)) = None
   \<and> fst (train_model train1 cfg0 ''config/args.json'' ''baselines'' ''sgd'' False world1) = Inr ()
   \<and> run_id_txt (snd (train_model train1 cfg0 ''config/args.json'' ''baselines'' ''sgd'' False world1))
       = Some ''run''
   \<and> fs (snd (train_model train1 cfg0 ''config/args.json'' ''baselines'' ''sgd'' False world1))
        ''config/performance.json'' = Some (Json perf1)"
proof -
  have T: "fs (snd (train_model train1 cfg0 ''config/args.json'' ''baselines'' ''sgd'' True world1)) = fs world1
   \<and> run_id_txt (snd (train_model train1 cfg0 ''config/args.json'' ''baselines'' ''sgd'' True world1))
       = run_id_txt world1"
    using train_model_pointer [of True train1 cfg0 "''config/args.json''" "''baselines''" "''sgd''" world1]
    by simp
  have ok: "fst (train_model train1 cfg0 ''config/args.json'' ''baselines'' ''sgd'' False world1) = Inr ()"
    by (rule train_model_world1)
  have "run_id_txt (snd (train_model train1 cfg0 ''config/args.json'' ''baselines'' ''sgd'' False world1))
        = Some (fresh_ids world1 0)
        \<and> (\<exists>df a arts.
              read_labeled_csv (fs world1 (Path (DATA_DIR cfg0) ''labeled_projects.csv'')) = Inr df
              \<and> load_args (fs world1 ''config/args.json'') = Inr a \<and> train1 df a = Inr arts
              \<and> fs (snd (train_model train1 cfg0 ''config/args.json'' ''baselines'' ''sgd'' False world1))
                  = (fs world1)(Path (CONFIG_DIR cfg0) ''performance.json'' \<mapsto> save_dict (performance arts)))"
    using train_model_pointer [of False train1 cfg0 "''config/args.json''" "''baselines''" "''sgd''" world1]
      ok by simp
  then obtain df a arts where F:
    "run_id_txt (snd (train_model train1 cfg0 ''config/args.json'' ''baselines'' ''sgd'' False world1))
       = Some (fresh_ids world1 0)"
    "train1 df a = Inr arts"
    "fs (snd (train_model train1 cfg0 ''config/args.json'' ''baselines'' ''sgd'' False world1))
       = (fs world1)(Path (CONFIG_DIR cfg0) ''performance.json'' \<mapsto> save_dict (performance arts))"
    by blast
  from F(2) have p: "performance arts = perf1" by (auto simp: train1_def bundle1_def)
  have "fs (snd (train_model train1 cfg0 ''config/args.json'' ''baselines'' ''sgd'' False world1))
        ''config/performance.json'' = Some (Json perf1)"
    unfolding F(3) p by (simp add: Path_def cfg0_def save_dict_def)
  with T ok F(1) show ?thesis by (simp add: world1_def)
qed

lemma tree_nothing_else:
  "run_tree arts (Path ''artifacts'' ''model.pkl'') = None"
  "run_tree arts (Path ''model'' ''args.json'') = None"
  "run_tree arts (Path ''model'' ''label_encoder.json'') = None"
  "run_tree arts (Path ''model'' ''vectorizer.pkl'') = None"
  "run_tree arts (Path ''model'' ''performance.json'') = None"
  by (simp_all add: run_tree_def staged_files_def Path_def)

lemma load_artifacts_set_artifact:
  assumes "runs w rid = Some r" and "rid \<noteq> []"
  shows "load_artifacts (Some rid) (set_artifact rid p f w) = load_members ((artifacts r)(p := f))"
  using assms
  by (simp add: load_artifacts_def resolve_run_id_def py_not_def download_artifacts_def
      set_artifact_def upd_run_def)

lemma member_paths_distinct:
  "Path ''artifacts'' ''args.json'' \<noteq> Path ''artifacts'' ''vectorizer.pkl''"
  "Path ''artifacts'' ''args.json'' \<noteq> Path ''artifacts'' ''label_encoder.json''"
  "Path ''artifacts'' ''args.json'' \<noteq> Path ''artifacts'' ''performance.json''"
  "Path ''artifacts'' ''args.json'' \<noteq> Path ''model'' ''model.pkl''"
  "Path ''artifacts'' ''vectorizer.pkl'' \<noteq> Path ''artifacts'' ''label_encoder.json''"
  "Path ''artifacts'' ''vectorizer.pkl'' \<noteq> Path ''artifacts'' ''performance.json''"
  "Path ''artifacts'' ''vectorizer.pkl'' \<noteq> Path ''model'' ''model.pkl''"
  "Path ''artifacts'' ''label_encoder.json'' \<noteq> Path ''artifacts'' ''performance.json''"
  "Path ''artifacts'' ''label_encoder.json'' \<noteq> Path ''model'' ''model.pkl''"
  "Path ''artifacts'' ''performance.json'' \<noteq> Path ''model'' ''model.pkl''"
  by (simp_all add: Path_def)

lemma readers_of_tree:
  "load_args (Some (save_dict (PDict (args arts)))) = Inr (args arts)"
  "joblib_load (Some (joblib_dump v)) = Inr v"
  "joblib_load (Some (Pickle v)) = Inr v"
  "load_dict (Some (save_dict (performance arts))) = Inr (performance arts)"
  "load_args None = Inl FileNotFoundError"
  "joblib_load None = Inl FileNotFoundError"
  "LabelEncoder_load None = Inl FileNotFoundError"
  "load_dict None = Inl FileNotFoundError"
  by (simp_all add: load_args_def load_dict_def save_dict_def Namespace_def joblib_load_def
      joblib_dump_def LabelEncoder_load_def)

lemma load_members_drop:
  fixes arts :: "'o artifact_bundle"
  shows "load_members ((run_tree arts)(Path ''artifacts'' ''args.json'' := None))
           = Inl FileNotFoundError"
    and "load_members ((run_tree arts)(Path ''artifacts'' ''vectorizer.pkl'' := None))
           = Inl FileNotFoundError"
    and "load_members ((run_tree arts)(Path ''artifacts'' ''label_encoder.json'' := None))
           = Inl FileNotFoundError"
    and "load_members ((run_tree arts)(Path ''artifacts'' ''performance.json'' := None))
           = Inl FileNotFoundError"
    and "load_members ((run_tree arts)(Path ''model'' ''model.pkl'' := None))
           = Inl FileNotFoundError"
  by (simp_all add: load_members_def member_paths_distinct member_paths_distinct [symmetric]
      tree_lookups readers_of_tree LabelEncoder_roundtrip)

lemma load_members_swap:
  fixes arts :: "'o artifact_bundle"
  shows "load_members ((run_tree arts)(Path ''model'' ''model.pkl'' \<mapsto> Pickle m))
           = Inr (arts\<lparr>model := m\<rparr>)"
    and "load_members ((run_tree arts)(Path ''artifacts'' ''vectorizer.pkl'' \<mapsto> Pickle v))
           = Inr (arts\<lparr>vectorizer := v\<rparr>)"
  by (simp_all add: load_members_def member_paths_distinct member_paths_distinct [symmetric]
      tree_lookups readers_of_tree LabelEncoder_roundtrip)

text \<open>
  C8. In the run that \<open>train_model\<close> persists, \<open>args.json\<close>,
  \<open>label_encoder.json\<close>, \<open>vectorizer.pkl\<close> and \<open>performance.json\<close> lie below
  \<open>artifacts\<close> and hold the members of the trained bundle, the pickled model lies
  below \<open>model\<close>, neither sub-path holds the other's files, and no path below one is a
  path below the other. \<open>load_artifacts\<close> reads from both: for the identifier of the
  run, which the store never hands out empty, it returns the bundle; it raises the
  not-found error of \<open>open\<close> as soon as the model file below \<open>model\<close> or any
  one of the four files below \<open>artifacts\<close> is taken away from the run; and the model
  and the vectorizer it returns are the ones pickled at
  \<open>model/model.pkl\<close> and at \<open>artifacts/vectorizer.pkl\<close>, whatever is put there.
\<close>

theorem model_sub_path:
  assumes "fst (train_model train cfg args_fp e rn t w) = Inr ()"
  shows "\<exists>r df a arts. runs (snd (train_model train cfg args_fp e rn t w)) (fresh_ids w 0) = Some r
     \<and> read_labeled_csv (fs w (Path (DATA_DIR cfg) ''labeled_projects.csv'')) = Inr df
     \<and> load_args (fs w args_fp) = Inr a \<and> train df a = Inr arts
     \<and> artifacts r (Path ''artifacts'' ''args.json'') = Some (save_dict (PDict (args arts)))
     \<and> artifacts r (Path ''artifacts'' ''label_encoder.json'')
         = Some (LabelEncoder_save (label_encoder arts))
     \<and> artifacts r (Path ''artifacts'' ''vectorizer.pkl'') = Some (joblib_dump (vectorizer arts))
     \<and> artifacts r (Path ''artifacts'' ''performance.json'') = Some (save_dict (performance arts))
     \<and> artifacts r (Path ''model'' ''model.pkl'') = Some (Pickle (model arts))
     \<and> artifacts r (Path ''artifacts'' ''model.pkl'') = None
     \<and> artifacts r (Path ''model'' ''args.json'') = None
     \<and> artifacts r (Path ''model'' ''label_encoder.json'') = None
     \<and> artifacts r (Path ''model'' ''vectorizer.pkl'') = None
     \<and> artifacts r (Path ''model'' ''performance.json'') = None
     \<and> (\<forall>f g. Path ''model'' f \<noteq> Path ''artifacts'' g)
     \<and> load_members (artifacts r) = Inr arts
     \<and> load_members ((artifacts r)(Path ''model'' ''model.pkl'' := None)) = Inl FileNotFoundError
     \<and> load_members ((artifacts r)(Path ''artifacts'' ''args.json'' := None)) = Inl FileNotFoundError
     \<and> (fresh_ids w 0 \<noteq> [] \<longrightarrow>
          load_artifacts (Some (fresh_ids w 0)) (snd (train_model train cfg args_fp e rn t w))
            = Inr arts
        \<and> (\<forall>p \<in> {Path ''model'' ''model.pkl'', Path ''artifacts'' ''args.json'',
                   Path ''artifacts'' ''vectorizer.pkl'', Path ''artifacts'' ''label_encoder.json'',
                   Path ''artifacts'' ''performance.json''}.
              load_artifacts (Some (fresh_ids w 0))
                (set_artifact (fresh_ids w 0) p None (snd (train_model train cfg args_fp e rn t w)))
              = Inl FileNotFoundError)
        \<and> (\<forall>m. load_artifacts (Some (fresh_ids w 0))
                (set_artifact (fresh_ids w 0) (Path ''model'' ''model.pkl'') (Some (Pickle m))
                   (snd (train_model train cfg args_fp e rn t w)))
              = Inr (arts\<lparr>model := m\<rparr>))
        \<and> (\<forall>v. load_artifacts (Some (fresh_ids w 0))
                (set_artifact (fresh_ids w 0) (Path ''artifacts'' ''vectorizer.pkl'') (Some (Pickle v))
                   (snd (train_model train cfg args_fp e rn t w)))
              = Inr (arts\<lparr>vectorizer := v\<rparr>)))"
proof -
  let ?w = "snd (train_model train cfg args_fp e rn t w)"
  let ?rid = "fresh_ids w 0"
  from train_model_ok [OF assms] obtain df a arts where
    k: "read_labeled_csv (fs w (Path (DATA_DIR cfg) ''labeled_projects.csv'')) = Inr df"
       "load_args (fs w args_fp) = Inr a" "train df a = Inr arts"
    and "map_option artifacts (runs ?w ?rid) = Some (run_tree arts)"
    by blast
  then obtain r where r: "runs ?w ?rid = Some r" "artifacts r = run_tree arts"
    by auto
  have store: "artifacts r (Path ''artifacts'' ''args.json'') = Some (save_dict (PDict (args arts)))
     \<and> artifacts r (Path ''artifacts'' ''label_encoder.json'')
         = Some (LabelEncoder_save (label_encoder arts))
     \<and> artifacts r (Path ''artifacts'' ''vectorizer.pkl'') = Some (joblib_dump (vectorizer arts))
     \<and> artifacts r (Path ''artifacts'' ''performance.json'') = Some (save_dict (performance arts))
     \<and> artifacts r (Path ''model'' ''model.pkl'') = Some (Pickle (model arts))
     \<and> artifacts r (Path ''artifacts'' ''model.pkl'') = None
     \<and> artifacts r (Path ''model'' ''args.json'') = None
     \<and> artifacts r (Path ''model'' ''label_encoder.json'') = None
     \<and> artifacts r (Path ''model'' ''vectorizer.pkl'') = None
     \<and> artifacts r (Path ''model'' ''performance.json'') = None
     \<and> (\<forall>f g. Path ''model'' f \<noteq> Path ''artifacts'' g)
     \<and> load_members (artifacts r) = Inr arts
     \<and> load_members ((artifacts r)(Path ''model'' ''model.pkl'' := None)) = Inl FileNotFoundError
     \<and> load_members ((artifacts r)(Path ''artifacts'' ''args.json'' := None)) = Inl FileNotFoundError"
    using r(2) tree_lookups [of arts] tree_nothing_else [of arts] Path_sub_neq
      load_members_tree [of arts] load_members_drop(1,5) [of arts]
    by simp
  have load: "load_artifacts (Some ?rid) ?w = Inr arts
        \<and> (\<forall>p \<in> {Path ''model'' ''model.pkl'', Path ''artifacts'' ''args.json'',
                   Path ''artifacts'' ''vectorizer.pkl'', Path ''artifacts'' ''label_encoder.json'',
                   Path ''artifacts'' ''performance.json''}.
              load_artifacts (Some ?rid) (set_artifact ?rid p None ?w) = Inl FileNotFoundError)
        \<and> (\<forall>m. load_artifacts (Some ?rid)
                (set_artifact ?rid (Path ''model'' ''model.pkl'') (Some (Pickle m)) ?w)
              = Inr (arts\<lparr>model := m\<rparr>))
        \<and> (\<forall>v. load_artifacts (Some ?rid)
                (set_artifact ?rid (Path ''artifacts'' ''vectorizer.pkl'') (Some (Pickle v)) ?w)
              = Inr (arts\<lparr>vectorizer := v\<rparr>))"
    if ne: "?rid \<noteq> []"
  proof -
    have "load_artifacts (Some ?rid) ?w = Inr arts"
      using r ne load_members_tree [of arts]
      by (simp add: load_artifacts_def resolve_run_id_def py_not_def download_artifacts_def)
    then show ?thesis
      using load_members_drop [of arts] load_members_swap [of arts]
      by (simp add: load_artifacts_set_artifact [OF r(1) ne] r(2))
  qed
  show ?thesis
    using r(1) k store load by blast
qed

theorem model_sub_path_witness:
  "fst (train_model train1 cfg0 ''config/args.json'' ''baselines'' ''sgd'' True world1) = Inr ()
   \<and> (\<exists>r. runs (snd (train_model train1 cfg0 ''config/args.json'' ''baselines'' ''sgd'' True world1))
             ''run'' = Some r
          \<and> artifacts r ''model/model.pkl'' = Some (Pickle 2)
          \<and> artifacts r ''artifacts/vectorizer.pkl'' = Some (Pickle 1)
          \<and> artifacts r ''artifacts/model.pkl'' = None)
   \<and> load_artifacts (Some ''run'')
         (snd (train_model train1 cfg0 ''config/args.json'' ''baselines'' ''sgd'' True world1))
       = Inr bundle1
   \<and> load_artifacts (Some ''run'') (set_artifact ''run'' ''model/model.pkl'' None
         (snd (train_model train1 cfg0 ''config/args.json'' ''baselines'' ''sgd'' True world1)))
       = Inl FileNotFoundError
   \<and> load_artifacts (Some ''run'') (set_artifact ''run'' ''artifacts/label_encoder.json'' None
         (snd (train_model train1 cfg0 ''config/args.json'' ''baselines'' ''sgd'' True world1)))
       = Inl FileNotFoundError
   \<and> load_artifacts (Some ''run'') (set_artifact ''run'' ''model/model.pkl'' (Some (Pickle 9))
         (snd (train_model train1 cfg0 ''config/args.json'' ''baselines'' ''sgd'' True world1)))
       = Inr (bundle1\<lparr>model := 9\<rparr>)"
proof -
  let ?w = "snd (train_model train1 cfg0 ''config/args.json'' ''baselines'' ''sgd'' True world1)"
  have id: "fresh_ids world1 0 = ''run''" by (simp add: world1_def)
  have ne: "fresh_ids world1 0 \<noteq> []" by (simp add: world1_def)
  from model_sub_path [OF train_model_world1, of True]
  obtain r df a arts where
    h: "runs ?w (fresh_ids world1 0) = Some r"
       "read_labeled_csv (fs world1 (Path (DATA_DIR cfg0) ''labeled_projects.csv'')) = Inr df"
       "load_args (fs world1 ''config/args.json'') = Inr a"
       "train1 df a = Inr arts"
       "artifacts r (Path ''artifacts'' ''vectorizer.pkl'') = Some (joblib_dump (vectorizer arts))"
       "artifacts r (Path ''model'' ''model.pkl'') = Some (Pickle (model arts))"
       "artifacts r (Path ''artifacts'' ''model.pkl'') = None"
    and l: "fresh_ids world1 0 \<noteq> [] \<longrightarrow>
          load_artifacts (Some (fresh_ids world1 0)) ?w = Inr arts
        \<and> (\<forall>p \<in> {Path ''model'' ''model.pkl'', Path ''artifacts'' ''args.json'',
                   Path ''artifacts'' ''vectorizer.pkl'', Path ''artifacts'' ''label_encoder.json'',
                   Path ''artifacts'' ''performance.json''}.
              load_artifacts (Some (fresh_ids world1 0))
                (set_artifact (fresh_ids world1 0) p None ?w) = Inl FileNotFoundError)
        \<and> (\<forall>m. load_artifacts (Some (fresh_ids world1 0))
                (set_artifact (fresh_ids world1 0) (Path ''model'' ''model.pkl'') (Some (Pickle m)) ?w)
              = Inr (arts\<lparr>model := m\<rparr>))"
    by blast
  have "a = args1"
    using h(3) by (simp add: world1_def load_args_def load_dict_def Namespace_def)
  with h(4) have b: "arts = bundle1" by (auto simp: train1_def bundle1_def)
  have v: "vectorizer bundle1 = 1" "model bundle1 = 2" by (simp_all add: bundle1_def)
  have s: "\<exists>r. runs ?w ''run'' = Some r
          \<and> artifacts r ''model/model.pkl'' = Some (Pickle 2)
          \<and> artifacts r ''artifacts/vectorizer.pkl'' = Some (Pickle 1)
          \<and> artifacts r ''artifacts/model.pkl'' = None"
    using h(1,5,6,7) unfolding id b v by (simp add: Path_def joblib_dump_def)
  from l ne have l1: "load_artifacts (Some ''run'') ?w = Inr bundle1"
    and l2: "\<And>p. p \<in> {Path ''model'' ''model.pkl'', Path ''artifacts'' ''args.json'',
                   Path ''artifacts'' ''vectorizer.pkl'', Path ''artifacts'' ''label_encoder.json'',
                   Path ''artifacts'' ''performance.json''}
          \<Longrightarrow> load_artifacts (Some ''run'') (set_artifact ''run'' p None ?w) = Inl FileNotFoundError"
    and l3: "\<And>m. load_artifacts (Some ''run'')
                (set_artifact ''run'' (Path ''model'' ''model.pkl'') (Some (Pickle m)) ?w)
              = Inr (bundle1\<lparr>model := m\<rparr>)"
    unfolding id b by blast+
  have p: "Path ''model'' ''model.pkl'' = ''model/model.pkl''"
    "Path ''artifacts'' ''label_encoder.json'' = ''artifacts/label_encoder.json''"
    by (simp_all add: Path_def)
  have d1: "load_artifacts (Some ''run'') (set_artifact ''run'' ''model/model.pkl'' None ?w)
      = Inl FileNotFoundError"
    using l2 [of "Path ''model'' ''model.pkl''"] unfolding p by simp
  have d2: "load_artifacts (Some ''run'') (set_artifact ''run'' ''artifacts/label_encoder.json'' None ?w)
      = Inl FileNotFoundError"
    using l2 [of "Path ''artifacts'' ''label_encoder.json''"] unfolding p by simp
  have d3: "load_artifacts (Some ''run'') (set_artifact ''run'' ''model/model.pkl'' (Some (Pickle 9)) ?w)
      = Inr (bundle1\<lparr>model := 9\<rparr>)"
    using l3 [of 9] unfolding p by simp
  from train_model_world1 [of True] s l1 d1 d2 d3 show ?thesis by simp
qed

section \<open>Resolving the run to load\<close>

text \<open>
  C4. With no identifier given and no run pointer file, \<open>load_artifacts\<close> raises the
  not-found error of \<open>open\<close>; it returns no bundle.
\<close>

theorem load_without_pointer:
  "run_id_txt w = None \<Longrightarrow> load_artifacts None w = Inl FileNotFoundError"
  by (simp add: load_artifacts_def resolve_run_id_def read_run_id_txt_def)

theorem load_without_pointer_witness:
  "run_id_txt world0 = None \<and> load_artifacts None world0 = Inl FileNotFoundError"
proof -
  have n: "run_id_txt world0 = None" by (simp add: world0_def)
  from load_without_pointer [OF n] n show ?thesis by simp
qed

lemma py_not_iff: "py_not run_id \<longleftrightarrow> run_id = None \<or> run_id = Some []"
  by (simp add: py_not_def split: option.split)

text \<open>
  C9. A run identifier that Python takes for false, \<open>None\<close> or the empty string, makes
  \<open>load_artifacts\<close> and \<open>predict_tag\<close> go on with the content of the run pointer
  file: what they return is what the pointer's run gives, and the argument itself is
  never looked up in the store.
\<close>

theorem falsy_run_id:
  assumes "py_not run_id"
  shows "load_artifacts run_id w =
       (case run_id_txt w of
          None \<Rightarrow> Inl FileNotFoundError
        | Some p \<Rightarrow> (case download_artifacts p w of Inl e \<Rightarrow> Inl e | Inr dp \<Rightarrow> load_members dp))
   \<and> predict_tag predict text run_id w =
       (case run_id_txt w of
          None \<Rightarrow> Inl FileNotFoundError
        | Some p \<Rightarrow> (case load_artifacts (Some p) w of Inl e \<Rightarrow> Inl e | Inr arts \<Rightarrow> predict [text] arts))"
  using assms
  by (auto simp: load_artifacts_def predict_tag_def resolve_run_id_def read_run_id_txt_def py_not_def
      split: option.splits)

text \<open>
  In \<open>world3\<close> a run is filed under the empty identifier, with no artifacts; the call
  with the empty string loads the pointer's run all the same.
\<close>

theorem falsy_run_id_witness:
  "py_not (Some []) \<and> py_not None
   \<and> runs world3 [] \<noteq> None
   \<and> load_artifacts (Some []) world3 = Inr bundle1
   \<and> load_artifacts None world3 = Inr bundle1
   \<and> predict_tag predict1 ''a text'' (Some []) world3 = Inr [(''a text'', ''nlp'')]"
proof -
  have e: "py_not (Some [])" and n: "py_not None" by (simp_all add: py_not_def)
  have p: "run_id_txt world3 = Some ''r0''" and r: "runs world3 [] \<noteq> None"
    by (simp_all add: world3_def)
  have d: "download_artifacts ''r0'' world3 = Inr (run_tree bundle1)"
    by (simp add: download_artifacts_def world3_def)
  have l: "load_artifacts (Some ''r0'') world3 = Inr bundle1"
    by (simp add: load_artifacts_def resolve_run_id_def py_not_def d load_members_tree)
  have c: "predict1 [''a text''] bundle1 = Inr [(''a text'', ''nlp'')]"
    by (simp add: predict1_def bundle1_def)
  from falsy_run_id [OF e, of world3 predict1 "''a text''"] falsy_run_id [OF n, of world3 predict1 "''a text''"]
  show ?thesis using e n r by (simp add: p d l c load_members_tree)
qed

section \<open>Loading an incomplete run\<close>







section \<open>The trials of a study\<close>

lemma update_best_skip: "state t \<noteq> COMPLETE \<Longrightarrow> update_best best t = best"
  by (simp add: update_best_def)

lemma run_trial_props:
  "run_trial p obj df (trials, a) = Inr (t, a') \<Longrightarrow>
     number t = length trials \<and> (state t = COMPLETE \<longrightarrow> trial_value t \<noteq> None)
     \<and> (state t = COMPLETE \<or> state t = PRUNED)"
  by (auto simp: run_trial_def Let_def split: prod.splits bool.splits sum.splits)

lemma study_optimize_props:
  assumes "study_optimize (run_trial p obj df) n (trials, a) = Inr (ts, a')"
    and "complete_valued trials" and "numbered trials"
  shows "complete_valued ts \<and> numbered ts \<and> length ts = length trials + n"
  using assms
proof (induction n arbitrary: trials a)
  case 0
  then show ?case by simp
next
  case (Suc n)
  from Suc.prems(1) obtain t a1 where t: "run_trial p obj df (trials, a) = Inr (t, a1)"
    and rest: "study_optimize (run_trial p obj df) n (trials @ [t], a1) = Inr (ts, a')"
    by (auto split: sum.splits)
  from run_trial_props [OF t] Suc.prems(2,3)
  have "complete_valued (trials @ [t])" "numbered (trials @ [t])"
    by (simp_all add: complete_valued_def numbered_def)
  from Suc.IH [OF rest this] show ?case by simp
qed

lemma study_optimize_wf:
  assumes "study_optimize (run_trial p obj df) n ([], a) = Inr (ts, a')"
  shows "complete_valued ts" "numbered ts" "length ts = n"
  using study_optimize_props [OF assms] by (simp_all add: complete_valued_def numbered_def)

lemma optimize_study_cases:
  assumes "optimize_study objective cfg args_fp num_trials w = Inr (trials, a')"
  shows "\<exists>df a. read_labeled_csv (fs w (Path (DATA_DIR cfg) ''labeled_projects.csv'')) = Inr df
     \<and> load_args (fs w args_fp) = Inr a
     \<and> study_optimize (run_trial (MedianPruner 5 5) objective df) (nat num_trials) ([], a)
         = Inr (trials, a')"
  using assms by (auto simp: optimize_study_def split: sum.splits)

lemma study_optimize_prefix:
  "study_optimize run n (ts0, a0) = Inr (ts, a') \<Longrightarrow>
     take (length ts0) ts = ts0 \<and> length ts = length ts0 + n"
proof (induction n arbitrary: ts0 a0)
  case 0
  then show ?case by simp
next
  case (Suc n)
  from Suc.prems obtain t a1 where t: "run (ts0, a0) = Inr (t, a1)"
    and rest: "study_optimize run n (ts0 @ [t], a1) = Inr (ts, a')"
    by (auto split: sum.splits)
  from Suc.IH [OF rest] have p: "take (Suc (length ts0)) ts = ts0 @ [t]"
    and l: "length ts = Suc (length ts0) + n" by simp_all
  have "take (length ts0) ts = take (length ts0) (take (Suc (length ts0)) ts)"
    by (simp add: min_def)
  also have "\<dots> = ts0" unfolding p by simp
  finally show ?case using l by simp
qed

lemma study_optimize_nth:
  "study_optimize run n (ts0, a0) = Inr (ts, a') \<Longrightarrow> length ts0 \<le> i \<Longrightarrow> i < length ts \<Longrightarrow>
     \<exists>ai ai'. run (take i ts, ai) = Inr (ts ! i, ai')"
proof (induction n arbitrary: ts0 a0)
  case 0
  then show ?case by simp
next
  case (Suc n)
  from Suc.prems(1) obtain t a1 where t: "run (ts0, a0) = Inr (t, a1)"
    and rest: "study_optimize run n (ts0 @ [t], a1) = Inr (ts, a')"
    by (auto split: sum.splits)
  show ?case
  proof (cases "i = length ts0")
    case True
    from study_optimize_prefix [OF rest] have p: "take (Suc (length ts0)) ts = ts0 @ [t]" by simp
    have "take i ts = take (length ts0) (take (Suc (length ts0)) ts)"
      using True by (simp add: min_def)
    then have a: "take i ts = ts0" unfolding p by simp
    have "ts ! i = (take (Suc (length ts0)) ts) ! i" using True by simp
    then have b: "ts ! i = t" unfolding p using True by simp
    from t a b show ?thesis by blast
  next
    case False
    with Suc.prems(2) have "length (ts0 @ [t]) \<le> i" by simp
    from Suc.IH [OF rest this Suc.prems(3)] show ?thesis .
  qed
qed

lemma report_steps_spec:
  "report_steps sp seen curve = (r, p) \<Longrightarrow>
     take (length seen) r = seen \<and> length seen \<le> length r \<and> (p \<longrightarrow> length seen < length r)
     \<and> (\<forall>k. length seen < k \<and> k \<le> length r \<longrightarrow> sp (take k r) = (p \<and> k = length r))"
proof (induction curve arbitrary: seen)
  case Nil
  then show ?case by auto
next
  case (Cons v vs)
  show ?case
  proof (cases "sp (seen @ [v])")
    case True
    with Cons.prems have "r = seen @ [v]" "p" by simp_all
    with True show ?thesis by (auto simp: less_Suc_eq_le)
  next
    case False
    with Cons.prems have rest: "report_steps sp (seen @ [v]) vs = (r, p)" by simp
    from Cons.IH [OF rest] have
      pre: "take (Suc (length seen)) r = seen @ [v]" and le: "Suc (length seen) \<le> length r"
      and pl: "p \<longrightarrow> Suc (length seen) < length r"
      and all: "\<forall>k. Suc (length seen) < k \<and> k \<le> length r \<longrightarrow> sp (take k r) = (p \<and> k = length r)"
      by simp_all
    have "take (length seen) r = take (length seen) (take (Suc (length seen)) r)"
      by (simp add: min_def)
    then have a: "take (length seen) r = seen" unfolding pre by simp
    have "sp (take k r) = (p \<and> k = length r)" if k: "length seen < k \<and> k \<le> length r" for k
    proof (cases "k = Suc (length seen)")
      case True
      have "\<not> sp (take k r)" unfolding True pre by (rule False)
      moreover have "\<not> (p \<and> k = length r)" using True pl by auto
      ultimately show ?thesis by blast
    next
      case ne: False
      with k have "Suc (length seen) < k \<and> k \<le> length r" by simp
      with all show ?thesis by blast
    qed
    then have all': "\<forall>k. length seen < k \<and> k \<le> length r \<longrightarrow> sp (take k r) = (p \<and> k = length r)"
      by blast
    have l': "length seen \<le> length r" using le Suc_leD by blast
    have pl': "p \<longrightarrow> length seen < length r" using pl Suc_lessD by blast
    from a l' pl' all' show ?thesis by blast
  qed
qed

lemma run_trial_pruning:
  assumes "run_trial p obj df (h, a) = Inr (t, a')"
  shows "(0 < k \<and> k \<le> length (intermediate_values t) \<longrightarrow>
           (state t = PRUNED \<and> k = length (intermediate_values t))
             = prune p h (take k (intermediate_values t)))
       \<and> (state t = PRUNED \<longrightarrow> intermediate_values t \<noteq> [])"
proof -
  obtain r pr where rs: "report_steps (prune p h) [] (reports (obj a df h)) = (r, pr)"
    by (cases "report_steps (prune p h) [] (reports (obj a df h))")
  from assms rs have iv: "intermediate_values t = r" and st: "state t = PRUNED \<longleftrightarrow> pr"
    by (auto simp: run_trial_def Let_def split: bool.splits sum.splits)
  from report_steps_spec [OF rs] show ?thesis using iv st by auto
qed

section \<open>The best trial of a study\<close>

lemma update_best_first: "state t = COMPLETE \<Longrightarrow> update_best None t = Some t"
  by (simp add: update_best_def)

lemma update_best_greater:
  "state t = COMPLETE \<Longrightarrow> trial_value b = Some v \<Longrightarrow> trial_value t = Some x \<Longrightarrow> v < x
     \<Longrightarrow> update_best (Some b) t = Some t"
  by (simp add: update_best_def)

lemma update_best_keep:
  "state t = COMPLETE \<Longrightarrow> trial_value b = Some v \<Longrightarrow> trial_value t = Some x \<Longrightarrow> \<not> v < x
     \<Longrightarrow> update_best (Some b) t = Some b"
  by (simp add: update_best_def)

lemma foldl_update_best:
  assumes "complete_valued trials"
  shows "case foldl update_best None trials of
           None \<Rightarrow> \<not> list_ex (\<lambda>t. state t = COMPLETE) trials
         | Some b \<Rightarrow> \<exists>i v. trials ! i = b \<and> top_ranked trials i v"
  using assms
proof (induction trials rule: rev_induct)
  case Nil
  then show ?case by simp
next
  case (snoc t ts)
  from snoc.prems have cv: "complete_valued ts"
    and tv: "state t = COMPLETE \<longrightarrow> trial_value t \<noteq> None"
    by (simp_all add: complete_valued_def)
  note IH = snoc.IH [OF cv]
  show ?case
  proof (cases "state t = COMPLETE")
    case False
    show ?thesis
    proof (cases "foldl update_best None ts")
      case None
      with IH False show ?thesis by (simp add: update_best_skip)
    next
      case (Some b)
      with IH obtain i v where iv: "ts ! i = b" "top_ranked ts i v" by auto
      have "top_ranked (ts @ [t]) i v"
        using iv(2) False by (auto simp: top_ranked_def nth_append less_Suc_eq)
      moreover have "(ts @ [t]) ! i = b" using iv by (simp add: top_ranked_def nth_append)
      ultimately show ?thesis using Some False by (auto simp: update_best_skip)
    qed
  next
    case True
    with tv obtain x where x: "trial_value t = Some x" by auto
    show ?thesis
    proof (cases "foldl update_best None ts")
      case None
      with IH have none: "\<forall>j < length ts. state (ts ! j) \<noteq> COMPLETE"
        by (auto simp: list_ex_iff)
      have "top_ranked (ts @ [t]) (length ts) x"
        using none True x by (auto simp: top_ranked_def nth_append less_Suc_eq)
      then have "\<exists>i v. (ts @ [t]) ! i = t \<and> top_ranked (ts @ [t]) i v"
        by (intro exI [of _ "length ts"] exI [of _ x]) simp
      then show ?thesis using None True by (simp add: update_best_first)
    next
      case (Some b)
      with IH obtain i v where iv: "ts ! i = b" "top_ranked ts i v" by auto
      then have bv: "trial_value b = Some v" and il: "i < length ts"
        by (auto simp: top_ranked_def)
      show ?thesis
      proof (cases "v < x")
        case lt: True
        have "top_ranked (ts @ [t]) (length ts) x"
          using iv(2) True x lt by (fastforce simp: top_ranked_def nth_append less_Suc_eq)
        then have "\<exists>i v. (ts @ [t]) ! i = t \<and> top_ranked (ts @ [t]) i v"
          by (intro exI [of _ "length ts"] exI [of _ x]) simp
        moreover have "update_best (Some b) t = Some t"
          using True bv x lt by (rule update_best_greater)
        ultimately show ?thesis using Some by simp
      next
        case ge: False
        have "top_ranked (ts @ [t]) i v"
          using iv(2) True x ge il by (auto simp: top_ranked_def nth_append less_Suc_eq)
        moreover have "update_best (Some b) t = Some b"
          using True bv x ge by (rule update_best_keep)
        moreover have "(ts @ [t]) ! i = b" using iv(1) il by (simp add: nth_append)
        ultimately show ?thesis using Some by auto
      qed
    qed
  qed
qed

lemma numbered_nth: "numbered ts \<Longrightarrow> i < length ts \<Longrightarrow> number (ts ! i) = i"
  by (metis numbered_def nth_map nth_upt add_0)

lemma top_ranked_f1:
  assumes "top_ranked trials i v" and "f1_is_value trials"
  shows "best_by_f1 trials (trials ! i)"
proof -
  have "state t = COMPLETE \<longrightarrow> f1_le t (trials ! i)" if "t \<in> set trials" for t
  proof
    assume c: "state t = COMPLETE"
    from that obtain j where j: "j < length trials" "trials ! j = t"
      by (auto simp: in_set_conv_nth)
    with assms(1) c obtain u where u: "trial_value t = Some u" "u \<le> v"
      by (auto simp: top_ranked_def)
    from assms(1) have b: "trial_value (trials ! i) = Some v" "state (trials ! i) = COMPLETE"
      "trials ! i \<in> set trials"
      by (auto simp: top_ranked_def)
    from assms(2) that c u have "user_attrs t ''f1'' = Some (PFloat u)"
      by (auto simp: f1_is_value_def list_all_iff)
    moreover from assms(2) b have "user_attrs (trials ! i) ''f1'' = Some (PFloat v)"
      by (auto simp: f1_is_value_def list_all_iff)
    ultimately show "f1_le t (trials ! i)" using u(2) by (simp add: f1_le_def)
  qed
  then show ?thesis by (simp add: best_by_f1_def list_all_iff)
qed

text \<open>
  C1, as the code has it. When the study ends with at least one complete trial and
  some trial carries the user attribute \<open>f1\<close>, \<open>optimize\<close> returns and the argument
  file holds the parameters of one trial merged over the namespace of arguments as the
  calls of the objective have left it, the trial's values winning on shared keys:
  every call of the objective is handed the one namespace that line 136 loaded, and
  line 153 merges over that object. The file is the loaded arguments with the trial's
  parameters merged over them when the calls have changed no key but the parameters
  of that trial. The trial is \<^verbatim>\<open>study.best_trial\<close>: the complete trial whose
  objective value, the number the objective returned and that main.py logs as \<open>f1\<close>,
  is the greatest, the lowest index winning a tie. It is also first by the user
  attribute \<open>f1\<close> whenever each complete trial recorded as that attribute the number
  it returned.
\<close>

theorem optimize_best:
  assumes a: "load_args (fs w args_fp) = Inr a"
    and st: "optimize_study objective cfg args_fp num_trials w = Inr (trials, a')"
    and c: "list_ex (\<lambda>t. state t = COMPLETE) trials"
    and f: "list_ex (\<lambda>t. user_attrs t ''f1'' \<noteq> None) trials"
  shows "\<exists>i v. top_ranked trials i v \<and> number (trials ! i) = i
      \<and> optimize objective cfg args_fp study_name num_trials w
          = (Inr (), w\<lparr>fs := (fs w)(args_fp \<mapsto> save_dict (PDict (a' ++ params (trials ! i))))\<rparr>)
      \<and> (\<forall>k. (a' ++ params (trials ! i)) k
               = (case params (trials ! i) k of None \<Rightarrow> a' k | Some x \<Rightarrow> Some x))
      \<and> ((\<forall>k. params (trials ! i) k = None \<longrightarrow> a' k = a k)
            \<longrightarrow> a' ++ params (trials ! i) = a ++ params (trials ! i))
      \<and> (f1_is_value trials \<longrightarrow> best_by_f1 trials (trials ! i))"
proof -
  from optimize_study_cases [OF st] a obtain df where
    so: "study_optimize (run_trial (MedianPruner 5 5) objective df) (nat num_trials) ([], a)
         = Inr (trials, a')"
    by auto
  note wf = study_optimize_wf [OF so]
  from foldl_update_best [OF wf(1)] c
  obtain b i v where b: "foldl update_best None trials = Some b" "trials ! i = b"
    "top_ranked trials i v"
    by (cases "foldl update_best None trials") auto
  from b(3) have il: "i < length trials" by (simp add: top_ranked_def)
  have n: "number (trials ! i) = i" using wf(2) il by (rule numbered_nth)
  have bt: "best_trial trials = Inr (trials ! i)" using b by (simp add: best_trial_def)
  have srt: "sort_by_user_attrs_f1 trials = Inr ()" using f by (simp add: sort_by_user_attrs_f1_def)
  have opt: "optimize objective cfg args_fp study_name num_trials w
          = (Inr (), w\<lparr>fs := (fs w)(args_fp \<mapsto> save_dict (PDict (a' ++ params (trials ! i))))\<rparr>)"
    using st srt bt by (simp add: optimize_def)
  have mrg: "\<forall>k. (a' ++ params (trials ! i)) k
               = (case params (trials ! i) k of None \<Rightarrow> a' k | Some x \<Rightarrow> Some x)"
    by (simp add: map_add_def)
  have same: "(\<forall>k. params (trials ! i) k = None \<longrightarrow> a' k = a k)
            \<longrightarrow> a' ++ params (trials ! i) = a ++ params (trials ! i)"
  proof
    assume h: "\<forall>k. params (trials ! i) k = None \<longrightarrow> a' k = a k"
    show "a' ++ params (trials ! i) = a ++ params (trials ! i)"
    proof
      fix k show "(a' ++ params (trials ! i)) k = (a ++ params (trials ! i)) k"
        using h by (cases "params (trials ! i) k") (simp_all add: map_add_def)
    qed
  qed
  have f1: "f1_is_value trials \<longrightarrow> best_by_f1 trials (trials ! i)"
    using top_ranked_f1 [OF b(3)] by blast
  from b(3) n opt mrg same f1 show ?thesis by blast
qed

lemma df1: "read_labeled_csv (fs world1 (Path (DATA_DIR cfg0) ''labeled_projects.csv''))
      = Inr [(7, ''a title'', Some ''nlp'')]"
  by (simp add: read_labeled_csv_def world1_def cfg0_def Path_def)

lemma a1: "load_args (fs world1 ''config/args.json'') = Inr args1"
  by (simp add: load_args_def load_dict_def Namespace_def world1_def)

lemma run2_0:
  "run_trial p objective2 df ([], a)
     = Inr (trial2_0, a(''learning_rate'' \<mapsto> PFloat 0.1, ''threshold'' \<mapsto> PFloat 0.5))"
  by (simp add: run_trial_def objective2_def trial2_0_def)

lemma run2_1:
  "run_trial p objective2 df ([trial2_0], a) = Inr (trial2_1, a(''learning_rate'' \<mapsto> PFloat 0.2))"
  by (simp add: run_trial_def objective2_def trial2_1_def)

lemma study2:
  "optimize_study objective2 cfg0 ''config/args.json'' 2 world1 = Inr ([trial2_0, trial2_1], namespace2)"
proof -
  have n: "nat 2 = Suc (Suc 0)" by simp
  show ?thesis
    unfolding optimize_study_def df1 a1 n by (simp add: run2_0 run2_1 namespace2_def)
qed

lemma best2: "best_trial [trial2_0, trial2_1] = Inr trial2_0"
  by (simp add: best_trial_def update_best_def trial2_0_def trial2_1_def)

lemma wf2: "list_ex (\<lambda>t. state t = COMPLETE) [trial2_0, trial2_1]"
  "list_ex (\<lambda>t. user_attrs t ''f1'' \<noteq> None) [trial2_0, trial2_1]"
  by (simp_all add: trial2_0_def)

lemma optimize2:
  "optimize objective2 cfg0 ''config/args.json'' ''optimization'' 2 world1
     = (Inr (), world1\<lparr>fs := (fs world1)(''config/args.json''
           \<mapsto> Json (PDict (namespace2 ++ params trial2_0)))\<rparr>)"
proof -
  have s: "sort_by_user_attrs_f1 [trial2_0, trial2_1] = Inr ()"
    using wf2(2) by (simp add: sort_by_user_attrs_f1_def)
  show ?thesis
    by (simp add: optimize_def study2 s best2 save_dict_def)
qed

theorem optimize_best_witness:
  "load_args (fs world1 ''config/args.json'') = Inr args1
   \<and> optimize_study objective2 cfg0 ''config/args.json'' 2 world1
       = Inr ([trial2_0, trial2_1], namespace2)
   \<and> list_ex (\<lambda>t. state t = COMPLETE) [trial2_0, trial2_1]
   \<and> list_ex (\<lambda>t. user_attrs t ''f1'' \<noteq> None) [trial2_0, trial2_1]
   \<and> (\<exists>i v. top_ranked [trial2_0, trial2_1] i v \<and> number ([trial2_0, trial2_1] ! i) = i
        \<and> optimize objective2 cfg0 ''config/args.json'' ''optimization'' 2 world1
            = (Inr (), world1\<lparr>fs := (fs world1)(''config/args.json''
                 \<mapsto> save_dict (PDict (namespace2 ++ params ([trial2_0, trial2_1] ! i))))\<rparr>))"
proof -
  from optimize_best [OF a1 study2 wf2, of "''optimization''"]
  have "\<exists>i v. top_ranked [trial2_0, trial2_1] i v \<and> number ([trial2_0, trial2_1] ! i) = i
        \<and> optimize objective2 cfg0 ''config/args.json'' ''optimization'' 2 world1
            = (Inr (), world1\<lparr>fs := (fs world1)(''config/args.json''
                 \<mapsto> save_dict (PDict (namespace2 ++ params ([trial2_0, trial2_1] ! i))))\<rparr>)"
    by blast
  with a1 study2 wf2 show ?thesis by blast
qed

text \<open>
  C1 as stated fails twice over. The objective returns one number and records another
  as \<open>f1\<close>: of two complete trials the first has the greater value and the smaller
  \<open>f1\<close>, and the parameters written back are the first trial's. And the objective
  has written the key \<open>threshold\<close> to the namespace: the file written back holds it,
  the loaded arguments with the trial's parameters merged over them do not.
\<close>

theorem optimize_best_counterexample:
  "load_args (fs world1 ''config/args.json'') = Inr args1
   \<and> optimize_study objective2 cfg0 ''config/args.json'' 2 world1
       = Inr ([trial2_0, trial2_1], namespace2)
   \<and> optimize objective2 cfg0 ''config/args.json'' ''optimization'' 2 world1
     = (Inr (), world1\<lparr>fs := (fs world1)(''config/args.json''
           \<mapsto> Json (PDict (namespace2 ++ params trial2_0)))\<rparr>)
   \<and> (namespace2 ++ params trial2_0) ''threshold'' = Some (PFloat 0.5)
   \<and> (args1 ++ params trial2_0) ''threshold'' = None
   \<and> state trial2_1 = COMPLETE
   \<and> user_attrs trial2_0 ''f1'' = Some (PFloat 0.1)
   \<and> user_attrs trial2_1 ''f1'' = Some (PFloat 0.8)
   \<and> \<not> best_by_f1 [trial2_0, trial2_1] trial2_0"
proof -
  have "\<not> best_by_f1 [trial2_0, trial2_1] trial2_0"
    by (simp add: best_by_f1_def f1_le_def trial2_0_def trial2_1_def)
  moreover have "(namespace2 ++ params trial2_0) ''threshold'' = Some (PFloat 0.5)"
    by (simp add: namespace2_def trial2_0_def map_add_def)
  moreover have "(args1 ++ params trial2_0) ''threshold'' = None"
    by (simp add: args1_def trial2_0_def map_add_def)
  ultimately show ?thesis
    using a1 study2 optimize2 by (simp add: trial2_0_def trial2_1_def)
qed

text \<open>
  C6, as the code has it. Nothing checks \<open>num_trials\<close>. With a number that is not
  positive, and the data and the argument file readable, the study runs no trial, the
  frame of trials has no \<open>f1\<close> column, and \<open>optimize\<close> raises \<open>KeyError\<close> at the
  sort of line 152, whatever the objective; the argument file is not rewritten.
\<close>

theorem optimize_no_trials:
  assumes "num_trials \<le> 0"
    and "read_labeled_csv (fs w (Path (DATA_DIR cfg) ''labeled_projects.csv'')) = Inr df"
    and "load_args (fs w args_fp) = Inr a"
  shows "optimize objective cfg args_fp study_name num_trials w = (Inl KeyError, w)"
proof -
  from assms(1) have "nat num_trials = 0" by simp
  then show ?thesis
    using assms(2,3) by (simp add: optimize_def optimize_study_def sort_by_user_attrs_f1_def)
qed

theorem optimize_no_trials_witness:
  "(-3 :: int) \<le> 0
   \<and> read_labeled_csv (fs world1 (Path (DATA_DIR cfg0) ''labeled_projects.csv''))
       = Inr [(7, ''a title'', Some ''nlp'')]
   \<and> load_args (fs world1 ''config/args.json'') = Inr args1
   \<and> optimize objective2 cfg0 ''config/args.json'' ''optimization'' (-3) world1
       = (Inl KeyError, world1)"
proof -
  have n: "(-3 :: int) \<le> 0" by simp
  from optimize_no_trials [OF n df1 a1] n df1 a1 show ?thesis by simp
qed

text \<open>
  C6 as stated fails: with \<open>num_trials = 0\<close> the exception is \<open>KeyError\<close>, raised
  after the data were loaded and the study was run, not a configuration error.
\<close>

theorem optimize_no_trials_counterexample:
  "optimize objective2 cfg0 ''config/args.json'' ''optimization'' 0 world1 = (Inl KeyError, world1)
   \<and> fst (optimize objective2 cfg0 ''config/args.json'' ''optimization'' 0 world1)
       \<noteq> Inl ConfigurationError"
  by (simp add: optimize_def optimize_study_def df1 a1 sort_by_user_attrs_f1_def)

section \<open>Pruning in the study\<close>

lemma best_intermediate_Max: "vs \<noteq> [] \<Longrightarrow> best_intermediate vs = Max (set vs)"
  by (cases vs) (simp_all add: best_intermediate_def Max.set_eq_fold [symmetric])

lemma prune_5_5:
  "prune (MedianPruner 5 5) h rs
     = (5 \<le> length (filter (\<lambda>t. state t = COMPLETE) h) \<and> 5 < length rs
        \<and> values_at_step h (length rs - 1) \<noteq> []
        \<and> Max (set rs) < median (values_at_step h (length rs - 1)))"
proof (cases "rs = []")
  case True
  then show ?thesis by (simp add: prune_def MedianPruner_def Let_def)
next
  case False
  have l: "length (values_at_step h (length rs - 1)) < 1
          \<longleftrightarrow> values_at_step h (length rs - 1) = []"
    by (cases "values_at_step h (length rs - 1)") simp_all
  show ?thesis
    using False l by (auto simp: prune_def MedianPruner_def Let_def best_intermediate_Max)
qed

text \<open>
  C5, as the code has it, for every trial of the study that \<open>optimize\<close> runs and
  every step at which the trial reported. The trial ends pruned at that step exactly
  when five earlier trials of the study are complete, the step is step 5 or later, so
  that more than five values are recorded, some complete earlier trial reported at
  that step, and the greatest value the trial has reported so far, not the value of
  the step alone, is less than the median of the complete earlier trials' values at
  that step. So no trial is pruned before five trials are complete nor before it has
  reported at step 5, and every trial ends complete or pruned. The loop of reports is
  the one modelled from the specification.
\<close>

theorem pruning_in_study:
  assumes st: "optimize_study objective cfg args_fp num_trials w = Inr (trials, a')"
    and i: "i < length trials"
    and k: "0 < k" "k \<le> length (intermediate_values (trials ! i))"
  shows "((state (trials ! i) = PRUNED \<and> k = length (intermediate_values (trials ! i)))
           = (5 \<le> length (filter (\<lambda>t. state t = COMPLETE) (take i trials)) \<and> 5 < k
              \<and> values_at_step (take i trials) (k - 1) \<noteq> []
              \<and> Max (set (take k (intermediate_values (trials ! i))))
                  < median (values_at_step (take i trials) (k - 1))))
       \<and> (state (trials ! i) = PRUNED \<longrightarrow>
            5 \<le> length (filter (\<lambda>t. state t = COMPLETE) (take i trials))
            \<and> 5 < length (intermediate_values (trials ! i)))
       \<and> (state (trials ! i) = PRUNED \<or> state (trials ! i) = COMPLETE)"
proof -
  from optimize_study_cases [OF st] obtain df a where
    so: "study_optimize (run_trial (MedianPruner 5 5) objective df) (nat num_trials) ([], a)
         = Inr (trials, a')"
    by blast
  from study_optimize_nth [OF so _ i] obtain ai ai' where
    rt: "run_trial (MedianPruner 5 5) objective df (take i trials, ai) = Inr (trials ! i, ai')"
    by auto
  note rp = run_trial_pruning [OF rt]
  have lk: "length (take k (intermediate_values (trials ! i))) = k" using k(2) by simp
  have A: "(state (trials ! i) = PRUNED \<and> k = length (intermediate_values (trials ! i)))
           = (5 \<le> length (filter (\<lambda>t. state t = COMPLETE) (take i trials)) \<and> 5 < k
              \<and> values_at_step (take i trials) (k - 1) \<noteq> []
              \<and> Max (set (take k (intermediate_values (trials ! i))))
                  < median (values_at_step (take i trials) (k - 1)))"
    using rp [of k] k by (simp add: prune_5_5 lk)
  have B: "state (trials ! i) = PRUNED \<longrightarrow>
            5 \<le> length (filter (\<lambda>t. state t = COMPLETE) (take i trials))
            \<and> 5 < length (intermediate_values (trials ! i))"
  proof
    assume p: "state (trials ! i) = PRUNED"
    with rp [of "length (intermediate_values (trials ! i))"]
    have "prune (MedianPruner 5 5) (take i trials) (intermediate_values (trials ! i))"
      by auto
    then show "5 \<le> length (filter (\<lambda>t. state t = COMPLETE) (take i trials))
            \<and> 5 < length (intermediate_values (trials ! i))"
      by (simp add: prune_5_5)
  qed
  have C: "state (trials ! i) = PRUNED \<or> state (trials ! i) = COMPLETE"
    using run_trial_props [OF rt] by blast
  from A B C show ?thesis by blast
qed

lemma prune_startup:
  "length (filter (\<lambda>t. state t = COMPLETE) h) < 5 \<Longrightarrow> \<not> prune (MedianPruner 5 5) h rs"
  by (simp add: prune_5_5)

lemma report_steps_never:
  "(\<And>rs. \<not> sp rs) \<Longrightarrow> report_steps sp seen curve = (seen @ curve, False)"
  by (induction curve arbitrary: seen) simp_all

lemma run_startup:
  assumes "length h < 5"
  shows "run_trial (MedianPruner 5 5) (sixth_objective curve) df (h, a)
           = Inr (steady_trial (length h), a)"
proof -
  have "length (filter (\<lambda>t. state t = COMPLETE) h) < 5"
    using le_less_trans [OF length_filter_le assms] .
  then have "report_steps (prune (MedianPruner 5 5) h) [] rs = ([] @ rs, False)" for rs
    by (intro report_steps_never prune_startup)
  then show ?thesis
    using assms by (simp add: run_trial_def sixth_objective_def steady_trial_def)
qed

lemma study_optimize_add:
  "study_optimize run (m + n) st
     = (case study_optimize run m st of Inl e \<Rightarrow> Inl e | Inr st' \<Rightarrow> study_optimize run n st')"
  by (induction m arbitrary: st) (auto split: sum.splits)

lemma first_five:
  "study_optimize (run_trial (MedianPruner 5 5) (sixth_objective curve) df) 5 ([], a)
     = Inr (five_trials, a)"
proof -
  have g: "study_optimize (run_trial (MedianPruner 5 5) (sixth_objective curve) df) n ([], a)
      = Inr (five_trials, a)" if "n = Suc (Suc (Suc (Suc (Suc 0))))" for n
    unfolding that by (simp add: run_startup five_trials_def, simp add: eval_nat_numeral)
  show ?thesis by (rule g) simp
qed

lemma completed_five: "filter (\<lambda>t. state t = COMPLETE) five_trials = five_trials"
  by (simp add: five_trials_def steady_trial_def)

lemma length_five: "length five_trials = 5"
  by (simp add: five_trials_def)

lemma values_five: "values_at_step five_trials 5 = [0.5, 0.5, 0.5, 0.5, 0.5]"
  by (simp add: values_at_step_def five_trials_def steady_trial_def)

lemma values_five_Suc:
  "values_at_step five_trials (Suc (Suc (Suc (Suc (Suc 0))))) = [0.5, 0.5, 0.5, 0.5, 0.5]"
  using values_five by (simp add: eval_nat_numeral)

lemma median_five: "median [1 / 2, 1 / 2, 1 / 2, 1 / 2, 1 / 2] = 1 / 2"
  by (simp add: median_def)

lemma prune_five:
  "prune (MedianPruner 5 5) five_trials rs
     = (5 < length rs \<and> values_at_step five_trials (length rs - 1) \<noteq> []
        \<and> Max (set rs) < median (values_at_step five_trials (length rs - 1)))"
  by (simp add: prune_5_5 completed_five length_five)

lemma prune_five_6:
  "length rs = 6 \<Longrightarrow> prune (MedianPruner 5 5) five_trials rs = (Max (set rs) < 1 / 2)"
  by (simp add: prune_five values_five median_five)

lemma prune_five_short:
  "length rs \<le> 5 \<Longrightarrow> \<not> prune (MedianPruner 5 5) five_trials rs"
  by (simp add: prune_five)

lemma run_low:
  "run_trial (MedianPruner 5 5) (sixth_objective [0.1, 0.1, 0.1, 0.1, 0.1, 0.1, 0.1, 0.1]) df
     (five_trials, a) = Inr (low_trial, a)"
  by (simp add: run_trial_def sixth_objective_def length_five prune_five_short prune_five_6
      low_trial_def)

lemma run_dip:
  "run_trial (MedianPruner 5 5) (sixth_objective [0.9, 0.1, 0.1, 0.1, 0.1, 0.1]) df
     (five_trials, a) = Inr (dip_trial, a)"
  by (simp add: run_trial_def sixth_objective_def length_five prune_five_short prune_five_6
      dip_trial_def)

lemma six: "nat 6 = 5 + 1" by simp

lemma study_low:
  "optimize_study (sixth_objective [0.1, 0.1, 0.1, 0.1, 0.1, 0.1, 0.1, 0.1]) cfg0
     ''config/args.json'' 6 world1 = Inr (five_trials @ [low_trial], args1)"
  unfolding optimize_study_def df1 a1 six study_optimize_add
  by (simp add: first_five run_low)

lemma study_dip:
  "optimize_study (sixth_objective [0.9, 0.1, 0.1, 0.1, 0.1, 0.1]) cfg0
     ''config/args.json'' 6 world1 = Inr (five_trials @ [dip_trial], args1)"
  unfolding optimize_study_def df1 a1 six study_optimize_add
  by (simp add: first_five run_dip)

theorem pruning_in_study_witness:
  "optimize_study (sixth_objective [0.1, 0.1, 0.1, 0.1, 0.1, 0.1, 0.1, 0.1]) cfg0
     ''config/args.json'' 6 world1 = Inr (five_trials @ [low_trial], args1)
   \<and> 5 < length (five_trials @ [low_trial])
   \<and> (0::nat) < 6 \<and> 6 \<le> length (intermediate_values ((five_trials @ [low_trial]) ! 5))
   \<and> state ((five_trials @ [low_trial]) ! 5) = PRUNED
   \<and> 5 \<le> length (filter (\<lambda>t. state t = COMPLETE) (take 5 (five_trials @ [low_trial])))
   \<and> Max (set (take 6 (intermediate_values ((five_trials @ [low_trial]) ! 5))))
       < median (values_at_step (take 5 (five_trials @ [low_trial])) (6 - 1))"
proof -
  have i: "5 < length (five_trials @ [low_trial])" by (simp add: length_five)
  have k: "(0::nat) < 6" "6 \<le> length (intermediate_values ((five_trials @ [low_trial]) ! 5))"
    by (simp_all add: nth_append length_five low_trial_def)
  have p: "state ((five_trials @ [low_trial]) ! 5) = PRUNED"
    "6 = length (intermediate_values ((five_trials @ [low_trial]) ! 5))"
    by (simp_all add: nth_append length_five low_trial_def)
  from pruning_in_study [OF study_low i k] p
  have "5 \<le> length (filter (\<lambda>t. state t = COMPLETE) (take 5 (five_trials @ [low_trial])))
     \<and> Max (set (take 6 (intermediate_values ((five_trials @ [low_trial]) ! 5))))
       < median (values_at_step (take 5 (five_trials @ [low_trial])) (6 - 1))"
    by blast
  with study_low i k p(1) show ?thesis by blast
qed

text \<open>
  C5 as stated fails: after five complete trials that reported 0.5 at every step, the
  sixth trial of the study reports 0.9 at step 0 and 0.1 from then on; at step 5 it is
  below the median of that step, and it ends complete, not pruned.
\<close>

theorem pruning_in_study_counterexample:
  "optimize_study (sixth_objective [0.9, 0.1, 0.1, 0.1, 0.1, 0.1]) cfg0
     ''config/args.json'' 6 world1 = Inr (five_trials @ [dip_trial], args1)
   \<and> take 5 (five_trials @ [dip_trial]) = five_trials
   \<and> (five_trials @ [dip_trial]) ! 5 = dip_trial
   \<and> 5 \<le> length (filter (\<lambda>t. state t = COMPLETE) five_trials)
   \<and> 5 < length (intermediate_values dip_trial)
   \<and> worse_than_median five_trials (intermediate_values dip_trial)
   \<and> state dip_trial = COMPLETE"
proof -
  have "worse_than_median five_trials (intermediate_values dip_trial)"
    by (simp add: worse_than_median_def dip_trial_def values_five_Suc median_five)
  then show ?thesis
    using study_dip by (simp add: completed_five length_five nth_append, simp add: dip_trial_def)
qed

end
